theory Spec2Isabelle
  imports Main
begin

section \<open>Python 2 byte strings and the regular-expression calls of pycharge.py\<close>

text \<open>
  pycharge.py is Python 2 code (\<^verbatim>\<open>except Exception, e\<close>). A Python 2 \<^verbatim>\<open>str\<close> is a
  sequence of bytes, which is what \<^typ>\<open>string\<close> is. The three regular-expression calls of
  class Target are made without the UNICODE flag (the constant \<^verbatim>\<open>re.UNICODE\<close>, which is 32,
  is handed over in the position of \<^verbatim>\<open>maxsplit\<close> and of \<^verbatim>\<open>count\<close>), so
  \<^verbatim>\<open>\s\<close> is the ASCII white space and \<^verbatim>\<open>\W\<close> is everything outside
  \<^verbatim>\<open>[a-zA-Z0-9_]\<close>.
\<close>

definition re_UNICODE :: nat where
  "re_UNICODE = 32"

definition is_space :: "char \<Rightarrow> bool" where
  "is_space c = (c \<in> set [CHR '' '', CHR 0x09, CHR 0x0A, CHR 0x0B, CHR 0x0C, CHR 0x0D])"

definition is_word :: "char \<Rightarrow> bool" where
  "is_word c = (let n = (of_char c :: nat) in
     (48 \<le> n \<and> n \<le> 57) \<or> (65 \<le> n \<and> n \<le> 90) \<or> n = 95 \<or> (97 \<le> n \<and> n \<le> 122))"

text \<open>\<^verbatim>\<open>word.lower()\<close> on a byte string in the C locale: only A-Z change.\<close>

definition lower_char :: "char \<Rightarrow> char" where
  "lower_char c = (let n = (of_char c :: nat) in
     if 65 \<le> n \<and> n \<le> 90 then char_of (n + 32) else c)"

definition lower :: "string \<Rightarrow> string" where
  "lower s = map lower_char s"

text \<open>
  \<^verbatim>\<open>re.split('\s+', s, maxsplit)\<close>. The library searches the next run of white space, emits
  the text before it and goes on behind it, while \<^verbatim>\<open>maxsplit\<close> is 0 or fewer than
  \<^verbatim>\<open>maxsplit\<close> splits were made; what is left is emitted as the last element. \<open>n\<close>
  counts the splits made so far.
\<close>

function re_split_ws :: "nat \<Rightarrow> nat \<Rightarrow> string \<Rightarrow> string list" where
  "re_split_ws maxsplit n s =
     (if (maxsplit = 0 \<or> n < maxsplit) \<and> list_ex is_space s
      then takeWhile (\<lambda>c. \<not> is_space c) s
             # re_split_ws maxsplit (Suc n)
                 (dropWhile is_space (dropWhile (\<lambda>c. \<not> is_space c) s))
      else [s])"
  by pat_completeness auto

lemma dropWhile_twice_shorter:
  assumes "list_ex P s"
  shows "length (dropWhile P (dropWhile (\<lambda>c. \<not> P c) s)) < length s"
proof -
  from assms have "dropWhile (\<lambda>c. \<not> P c) s \<noteq> []"
    by (auto simp: list_ex_iff)
  then obtain c cs where d: "dropWhile (\<lambda>c. \<not> P c) s = c # cs"
    by (cases "dropWhile (\<lambda>c. \<not> P c) s") auto
  then have "P c"
    using hd_dropWhile[of "\<lambda>c. \<not> P c" s] by auto
  then have "length (dropWhile P (c # cs)) \<le> length cs"
    by (simp add: length_dropWhile_le)
  moreover have "length (c # cs) \<le> length s"
    using d length_dropWhile_le[of "\<lambda>c. \<not> P c" s] by simp
  ultimately show ?thesis
    using d by simp
qed

termination re_split_ws
  by (relation "measure (\<lambda>(m, n, s). length s)") (auto simp: dropWhile_twice_shorter)

declare re_split_ws.simps [simp del]

text \<open>
  \<^verbatim>\<open>re.sub("[\W]+", "", s, count)\<close>: the leftmost runs of non-word characters are deleted,
  all of them when \<^verbatim>\<open>count\<close> is 0 and the first \<^verbatim>\<open>count\<close> otherwise.
\<close>

function re_sub_nonword :: "nat \<Rightarrow> nat \<Rightarrow> string \<Rightarrow> string" where
  "re_sub_nonword count n s =
     (if (count = 0 \<or> n < count) \<and> list_ex (\<lambda>c. \<not> is_word c) s
      then takeWhile is_word s
             @ re_sub_nonword count (Suc n)
                 (dropWhile (\<lambda>c. \<not> is_word c) (dropWhile is_word s))
      else s)"
  by pat_completeness auto

termination re_sub_nonword
  using dropWhile_twice_shorter [of "\<lambda>c. \<not> is_word c"]
  by (relation "measure (\<lambda>(m, n, s). length s)") auto

declare re_sub_nonword.simps [simp del]

text \<open>\<^verbatim>\<open>sep.join(xs)\<close>.\<close>

fun join :: "string \<Rightarrow> string list \<Rightarrow> string" where
  "join sep [] = []"
| "join sep [x] = x"
| "join sep (x # y # ys) = x @ sep @ join sep (y # ys)"

section \<open>Exceptions\<close>

text \<open>
  The exceptions that the modelled code raises or lets through. \<open>ScriptError\<close> is any
  exception derived from \<^verbatim>\<open>Exception\<close> that script code raises; \<open>NonException\<close> is one that
  is not (KeyboardInterrupt, SystemExit), which \<^verbatim>\<open>except Exception\<close> does not catch.
  \<open>PatternError\<close> carries its \<^verbatim>\<open>args\<close>.
\<close>

datatype exn =
    AttributeError
  | KeyError
  | TypeError
  | ValueError
  | PatternError "string list"
  | ScriptError string
  | NonException string

fun is_Exception :: "exn \<Rightarrow> bool" where
  "is_Exception (NonException _) = False"
| "is_Exception _ = True"

section \<open>class Target\<close>

record Target =
  orig_text :: string
  orig_words :: "string list"
  tokenized_words :: "string list list"
  normalized :: string

text \<open>
  \<^verbatim>\<open>_do_substitutions\<close>. With a substitution table the method evaluates
  \<^verbatim>\<open>self._substitutions\<close>, an attribute that no method of Target assigns, so the attribute
  lookup raises before the table or the word is looked at.
\<close>

definition do_substitutions :: "string \<Rightarrow> (string \<times> string) list option \<Rightarrow> exn + string list" where
  "do_substitutions word substitutions =
     (case substitutions of
        None \<Rightarrow> Inr [word]
      | Some _ \<Rightarrow> Inl AttributeError)"

definition kill_non_alphanumerics :: "string \<Rightarrow> string" where
  "kill_non_alphanumerics word = re_sub_nonword re_UNICODE 0 word"

text \<open>A list comprehension whose body may raise: the first exception ends it.\<close>

fun comprehend :: "('a \<Rightarrow> exn + 'b) \<Rightarrow> 'a list \<Rightarrow> exn + 'b list" where
  "comprehend f [] = Inr []"
| "comprehend f (x # xs) =
     (case f x of
        Inl e \<Rightarrow> Inl e
      | Inr y \<Rightarrow> (case comprehend f xs of Inl e \<Rightarrow> Inl e | Inr ys \<Rightarrow> Inr (y # ys)))"

text \<open>\<^verbatim>\<open>Target.__init__(text, substitutions)\<close>; the call of the logger is left out.\<close>

definition Target_init :: "string \<Rightarrow> (string \<times> string) list option \<Rightarrow> exn + Target" where
  "Target_init text substitutions =
     (let ow = re_split_ws re_UNICODE 0 text;
          lc_words = map lower ow
      in case comprehend (\<lambda>word. do_substitutions word substitutions) lc_words of
           Inl e \<Rightarrow> Inl e
         | Inr sub_words \<Rightarrow>
             (let tw = map (map kill_non_alphanumerics) sub_words
              in Inr \<lparr> orig_text = text, orig_words = ow, tokenized_words = tw,
                       normalized = join '' '' (map (join '' '') tw) \<rparr>))"

section \<open>Values, dictionaries and the collaborators of the engine\<close>

text \<open>
  A dictionary is an association list with one entry per key, in the order in which the keys
  were first stored; \<^verbatim>\<open>d[k] = v\<close> is \<open>dict_set\<close>, \<^verbatim>\<open>d[k]\<close> and
  \<^verbatim>\<open>k in d\<close> read \<open>map_of d k\<close>.
\<close>

fun dict_set :: "'k \<Rightarrow> 'v \<Rightarrow> ('k \<times> 'v) list \<Rightarrow> ('k \<times> 'v) list" where
  "dict_set k v [] = [(k, v)]"
| "dict_set k v ((k', v') # d) =
     (if k = k' then (k, v) # d else (k', v') # dict_set k v d)"

type_synonym user = string

text \<open>What a handler returns, as far as \<^verbatim>\<open>str(reply)\<close> tells values apart.\<close>

datatype pyval = PStr string | PNone

fun py_str :: "pyval \<Rightarrow> string" where
  "py_str (PStr s) = s"
| "py_str PNone = ''None''"

text \<open>
  PatternParser and the module \<^verbatim>\<open>re\<close> are not part of pycharge.py; the model takes them
  as parameters. \<open>pp_parse\<close> returns the tree or \<open>Inl args\<close> for raising
  \<^verbatim>\<open>PatternError(*args)\<close>; \<open>pp_regex\<close> is \<^verbatim>\<open>PatternParser.regex\<close> and returns
  \<open>None\<close> for raising PatternVariableNotFoundError, the one failure the interface declares;
  \<open>pp_format\<close> and \<open>pp_score\<close> return. A compiled regular expression is kept as its
  source text, and \<open>re_match rx s\<close> is \<^verbatim>\<open>re.match(rx, s)\<close>: \<open>None\<close>, or the
  \<^verbatim>\<open>groupdict()\<close> of the match object.
\<close>

record 'ast externals =
  pp_parse :: "string \<Rightarrow> string list + 'ast"
  pp_format :: "'ast \<Rightarrow> string"
  pp_score :: "'ast \<Rightarrow> int"
  pp_regex :: "'ast \<Rightarrow> (string \<times> (string \<times> string) list) list \<Rightarrow> string option"
  re_match :: "string \<Rightarrow> string \<Rightarrow> (string \<times> string option) list option"

text \<open>
  A handler is a method of a script object. What it does is script code; the model keeps
  what the engine can observe of it: it returns a value, it raises, or it calls
  \<^verbatim>\<open>reply(user, message, depth)\<close> of the engine and goes on with what that call returned
  or raised.
\<close>

datatype handler =
    Return pyval
  | Raise exn
  | CallReply user string int "exn + string \<Rightarrow> handler"

text \<open>
  A default value of a decorated method, and what \<^verbatim>\<open>inspect.getargspec\<close> reports of the
  method. \<open>m_id\<close> stands for the pair of object and function that Python compares when two
  bound methods are compared.
\<close>

datatype default = DStr string | DInt int | DNone

record bound_method =
  m_id :: nat
  m_args :: "string list"
  m_varargs :: "string option"
  m_keywords :: "string option"
  m_defaults :: "default list option"
  m_body :: handler

datatype attribute = NotCallable | Function bound_method | OtherCallable

text \<open>
  A class of \<^verbatim>\<open>ScriptRegistrar.registry\<close>: its names, its topic, whether its constructor
  and its \<^verbatim>\<open>setUp\<close> raise, and \<^verbatim>\<open>dir(instance)\<close> with the attribute behind each name.
\<close>

record script_class =
  sc_module :: string
  sc_name :: string
  sc_topic :: string
  sc_init :: "exn option"
  sc_setUp :: "exn option"
  sc_dir :: "(string \<times> attribute) list"

section \<open>class Rule\<close>

text \<open>
  \<open>regexc\<close> is \<open>None\<close> as long as the attribute \<^verbatim>\<open>regexc\<close> was never assigned;
  \<open>pattern_regexc\<close> and \<open>previous_regexc\<close> hold Python's \<^verbatim>\<open>None\<close> or a compiled
  expression.
\<close>

record 'ast Rule =
  pattern_tree :: 'ast
  previous_tree :: "'ast option"
  weight :: int
  rule :: bound_method
  rulename :: string
  formatted_pattern :: string
  formatted_previous :: "string option"
  score :: int
  pattern_regexc :: "string option"
  previous_regexc :: "string option"
  regexc :: "string option"

text \<open>
  \<^verbatim>\<open>Rule.__init__\<close>. The constructor calls \<^verbatim>\<open>format\<close> on the previous tree and drops
  the result; \<^verbatim>\<open>formatted_previous\<close> keeps the \<^verbatim>\<open>None\<close> assigned the line before.
\<close>

definition Rule_init ::
  "'ast externals \<Rightarrow> string \<Rightarrow> string \<Rightarrow> int \<Rightarrow> bound_method \<Rightarrow> string \<Rightarrow> exn + 'ast Rule" where
  "Rule_init ext raw_pattern raw_previous w m name =
     (case pp_parse ext raw_pattern of
        Inl args \<Rightarrow> Inl (PatternError (args @ ['' in pattern of '' @ name @ ''.'']))
      | Inr pt \<Rightarrow>
          (case (if raw_previous \<noteq> []
                 then (case pp_parse ext raw_previous of
                         Inl args \<Rightarrow>
                           Inl (PatternError (args @ ['' in previous pattern of '' @ name @ ''.'']))
                       | Inr t \<Rightarrow> Inr (Some t))
                 else Inr None) of
             Inl e \<Rightarrow> Inl e
           | Inr prev \<Rightarrow>
               Inr \<lparr> pattern_tree = pt, previous_tree = prev, weight = w, rule = m,
                     rulename = name, formatted_pattern = pp_format ext pt,
                     formatted_previous = None, score = pp_score ext pt,
                     pattern_regexc = None, previous_regexc = None, regexc = None \<rparr>))"

text \<open>
  \<^verbatim>\<open>_get_regexc(parsetree, alternates)\<close> renders \<^verbatim>\<open>self._pattern_tree\<close> whatever
  \<open>parsetree\<close> is, stores the compiled expression in \<^verbatim>\<open>self.regexc\<close> and returns
  \<^verbatim>\<open>None\<close> on both paths. The result is the returned value and the rule after the call.
\<close>

definition get_regexc ::
  "'ast externals \<Rightarrow> 'ast Rule \<Rightarrow> 'ast option \<Rightarrow> (string \<times> (string \<times> string) list) list
     \<Rightarrow> string option \<times> 'ast Rule" where
  "get_regexc ext r parsetree alts =
     (case pp_regex ext (pattern_tree r) alts of
        Some s \<Rightarrow> (None, r\<lparr>regexc := Some (s @ ''$'')\<rparr>)
      | None \<Rightarrow> (None, r))"

definition cache_regexes ::
  "'ast externals \<Rightarrow> 'ast Rule \<Rightarrow> (string \<times> (string \<times> string) list) list \<Rightarrow> 'ast Rule" where
  "cache_regexes ext r alts =
     (let (v1, r1) = get_regexc ext r (Some (pattern_tree r)) alts;
          r2 = r1\<lparr>pattern_regexc := v1\<rparr>;
          (v2, r3) = get_regexc ext r2 (previous_tree r2) alts
      in r3\<lparr>previous_regexc := v2\<rparr>)"

text \<open>\<^verbatim>\<open>__lt__\<close>, \<^verbatim>\<open>__eq__\<close> and \<^verbatim>\<open>__gt__\<close>.\<close>

definition Rule_lt :: "'ast Rule \<Rightarrow> 'ast Rule \<Rightarrow> bool" where
  "Rule_lt a b = (weight a < weight b \<or> (weight a = weight b \<and> score a < score b))"

definition Rule_eq :: "'ast Rule \<Rightarrow> 'ast Rule \<Rightarrow> bool" where
  "Rule_eq a b = (weight a = weight b \<and> score a = score b)"

definition Rule_gt :: "'ast Rule \<Rightarrow> 'ast Rule \<Rightarrow> bool" where
  "Rule_gt a b = (weight a > weight b \<or> (weight a = weight b \<and> score a > score b))"

text \<open>
  \<^verbatim>\<open>sorted(xs, reverse=True)\<close>. Python's sort is stable and compares with
  \<^verbatim>\<open>__lt__\<close> only; with \<^verbatim>\<open>reverse=True\<close> it reverses the list, sorts it and
  reverses it again. The stable sort is written as an insertion sort.
\<close>

fun insort_lt :: "'ast Rule \<Rightarrow> 'ast Rule list \<Rightarrow> 'ast Rule list" where
  "insort_lt x [] = [x]"
| "insort_lt x (y # ys) = (if Rule_lt y x then y # insort_lt x ys else x # y # ys)"

definition py_sort :: "'ast Rule list \<Rightarrow> 'ast Rule list" where
  "py_sort xs = foldr insort_lt xs []"

definition sorted_reverse :: "'ast Rule list \<Rightarrow> 'ast Rule list" where
  "sorted_reverse xs = rev (py_sort (rev xs))"

section \<open>class Topic and class ChatbotEngine\<close>

record 'ast Topic =
  rules :: "((string \<times> string option) \<times> 'ast Rule) list"
  sortedrules :: "'ast Rule list"
  alternates :: "(string \<times> string) list"

definition Topic_init :: "'ast Topic" where
  "Topic_init = \<lparr> rules = [], sortedrules = [], alternates = [] \<rparr>"

text \<open>
  The attributes of the engine. \<open>cache_built\<close> is \<open>None\<close> as long as the attribute was
  never assigned. \<open>script_match\<close> is the class attribute \<^verbatim>\<open>Script.match\<close> that reply
  assigns. The two loggers and what is written to them are left out; they are taken to
  return.
\<close>

record 'ast ChatbotEngine =
  depth_limit :: int
  botvars :: "(string \<times> string) list"
  uservars :: "(user \<times> (string \<times> string) list) list"
  substitutions :: "(string \<times> string) list"
  topics :: "(string \<times> 'ast Topic) list"
  cache_built :: "bool option"
  script_match :: "(int \<times> string option) list"

definition new_topic :: "'ast ChatbotEngine \<Rightarrow> string \<Rightarrow> 'ast ChatbotEngine" where
  "new_topic eng topic = eng\<lparr>topics := dict_set topic Topic_init (topics eng)\<rparr>"

text \<open>
  The topics after \<^verbatim>\<open>self._topics = {}\<close>, \<^verbatim>\<open>self._new_topic("all")\<close> and
  \<^verbatim>\<open>self._topics["all"].alternates["colors"] = "(red|green|blue)"\<close>.
\<close>

definition fresh_topics :: "(string \<times> 'ast Topic) list" where
  "fresh_topics =
     [(''all'', Topic_init\<lparr>alternates := [(''colors'', ''(red|green|blue)'')]\<rparr>)]"

text \<open>
  \<^verbatim>\<open>ChatbotEngine.__init__(debug, depth)\<close>. No statement of the constructor assigns
  \<^verbatim>\<open>cache_built\<close>.
\<close>

definition ChatbotEngine_init :: "bool \<Rightarrow> int \<Rightarrow> 'ast ChatbotEngine" where
  "ChatbotEngine_init debug depth =
     \<lparr> depth_limit = depth,
       botvars = [(''debug'', if debug then ''True'' else ''False'')],
       uservars = [],
       substitutions = [],
       topics = fresh_topics,
       cache_built = None,
       script_match = [] \<rparr>"

section \<open>Loading scripts\<close>

text \<open>
  \<^verbatim>\<open>_check_pattern_spec\<close>. The conditions are tried in the order of the source;
  \<^verbatim>\<open>len(argspec.defaults)\<close> raises TypeError when the method has no defaults.
\<close>

definition check_pattern_spec :: "bound_method \<Rightarrow> exn + bool" where
  "check_pattern_spec m =
     (if length (m_args m) \<noteq> 4
         \<or> join '' '' (m_args m) \<noteq> ''self pattern previous weight''
         \<or> m_varargs m \<noteq> None
         \<or> m_keywords m \<noteq> None
      then Inr False
      else (case m_defaults m of
              None \<Rightarrow> Inl TypeError
            | Some ds \<Rightarrow> Inr (length ds = 3)))"

text \<open>
  \<^verbatim>\<open>_load_pattern\<close>. The defaults that the decorator installs are two strings and a
  number; what the parser and the comparison methods do with a value of another type is
  outside this file, and the model stops with TypeError there. Both branches of the
  comparison of the two methods leave the engine as it is (one of them writes a warning).
  The engine that an escaping exception leaves behind is not kept.
\<close>

definition load_pattern ::
  "'ast externals \<Rightarrow> 'ast ChatbotEngine \<Rightarrow> string \<Rightarrow> script_class \<Rightarrow> string \<Rightarrow> bound_method
     \<Rightarrow> exn + 'ast ChatbotEngine" where
  "load_pattern ext eng topic cls attribute m =
     (let name = sc_module cls @ ''.'' @ sc_name cls @ ''.'' @ attribute
      in case check_pattern_spec m of
           Inl e \<Rightarrow> Inl e
         | Inr False \<Rightarrow> Inr eng
         | Inr True \<Rightarrow>
             (case m_defaults m of
                Some [DStr raw_pattern, DStr raw_previous, DInt w] \<Rightarrow>
                  (case Rule_init ext raw_pattern raw_previous w m name of
                     Inl (PatternError args) \<Rightarrow> Inr eng
                   | Inl e \<Rightarrow> Inl e
                   | Inr r \<Rightarrow>
                       (let tup = (formatted_pattern r, formatted_previous r)
                        in case map_of (topics eng) topic of
                             None \<Rightarrow> Inl KeyError
                           | Some t \<Rightarrow>
                               (case map_of (rules t) tup of
                                  Some existing_rule \<Rightarrow>
                                    (if m_id m \<noteq> m_id (rule existing_rule) then Inr eng
                                     else Inr eng)
                                | None \<Rightarrow>
                                    Inr (eng\<lparr>topics :=
                                          dict_set topic (t\<lparr>rules := dict_set tup r (rules t)\<rparr>)
                                            (topics eng)\<rparr>))))
              | _ \<Rightarrow> Inl TypeError))"

text \<open>
  What the nested iteration of \<^verbatim>\<open>_load_script\<close> does for one attribute. Of the three
  keywords only \<^verbatim>\<open>pattern\<close> does anything: \<^verbatim>\<open>_load_alternate\<close> and
  \<^verbatim>\<open>_load_substitute\<close> are \<^verbatim>\<open>pass\<close>. \<^verbatim>\<open>inspect.getargspec\<close> raises TypeError
  for a callable that is not a Python function.
\<close>

definition load_attribute ::
  "'ast externals \<Rightarrow> 'ast ChatbotEngine \<Rightarrow> string \<Rightarrow> script_class \<Rightarrow> string \<Rightarrow> attribute
     \<Rightarrow> exn + 'ast ChatbotEngine" where
  "load_attribute ext eng topic cls attribute a =
     (if take 7 attribute = ''pattern''
      then (case a of
              NotCallable \<Rightarrow> Inr eng
            | Function m \<Rightarrow> load_pattern ext eng topic cls attribute m
            | OtherCallable \<Rightarrow> Inl TypeError)
      else Inr eng)"

fun load_attributes ::
  "'ast externals \<Rightarrow> 'ast ChatbotEngine \<Rightarrow> string \<Rightarrow> script_class \<Rightarrow> (string \<times> attribute) list
     \<Rightarrow> exn + 'ast ChatbotEngine" where
  "load_attributes ext eng topic cls [] = Inr eng"
| "load_attributes ext eng topic cls ((attribute, a) # rest) =
     (case load_attribute ext eng topic cls attribute a of
        Inl e \<Rightarrow> Inl e
      | Inr eng' \<Rightarrow> load_attributes ext eng' topic cls rest)"

definition load_script ::
  "'ast externals \<Rightarrow> 'ast ChatbotEngine \<Rightarrow> script_class \<Rightarrow> exn + 'ast ChatbotEngine" where
  "load_script ext eng cls =
     (let topic = sc_topic cls;
          eng1 = (if map_of (topics eng) topic = None then new_topic eng topic else eng)
      in case sc_init cls of
           Some e \<Rightarrow> Inl e
         | None \<Rightarrow>
             (case sc_setUp cls of
                Some e \<Rightarrow> Inl e
              | None \<Rightarrow> load_attributes ext eng1 topic cls (sc_dir cls)))"

fun load_registry ::
  "'ast externals \<Rightarrow> 'ast ChatbotEngine \<Rightarrow> script_class list \<Rightarrow> exn + 'ast ChatbotEngine" where
  "load_registry ext eng [] = Inr eng"
| "load_registry ext eng (cls # registry) =
     (case load_script ext eng cls of
        Inl e \<Rightarrow> Inl e
      | Inr eng' \<Rightarrow> load_registry ext eng' registry)"

text \<open>
  \<^verbatim>\<open>load_scripts(directory)\<close>. The file system and the import of the files are outside
  the model: \<open>is_dir\<close> is what \<^verbatim>\<open>os.path.isdir(directory)\<close> answers and \<open>registry\<close> is
  \<^verbatim>\<open>ScriptRegistrar.registry\<close> after the imports. The last statement of the method only
  writes to the log.
\<close>

definition load_scripts ::
  "'ast externals \<Rightarrow> 'ast ChatbotEngine \<Rightarrow> bool \<Rightarrow> script_class list \<Rightarrow> exn + 'ast ChatbotEngine" where
  "load_scripts ext eng is_dir registry =
     (if \<not> is_dir then Inr eng
      else load_registry ext (eng\<lparr>cache_built := Some False, topics := fresh_topics\<rparr>) registry)"

section \<open>Building the cache and replying\<close>

text \<open>
  \<^verbatim>\<open>build_cache\<close>. The rules of \<open>sortedrules\<close> are the objects of \<open>rules\<close>, so what
  \<^verbatim>\<open>cache_regexes\<close> stores in a rule shows in both.
\<close>

definition build_topic :: "'ast externals \<Rightarrow> 'ast Topic \<Rightarrow> 'ast Topic" where
  "build_topic ext t =
     (let d = [(''a'', alternates t)]
      in t\<lparr> rules := map (\<lambda>(key, r). (key, cache_regexes ext r d)) (rules t),
            sortedrules := map (\<lambda>r. cache_regexes ext r d) (sorted_reverse (map snd (rules t))) \<rparr>)"

definition build_cache :: "'ast externals \<Rightarrow> 'ast ChatbotEngine \<Rightarrow> exn + 'ast ChatbotEngine" where
  "build_cache ext eng =
     (case cache_built eng of
        None \<Rightarrow> Inl AttributeError
      | Some True \<Rightarrow> Inr eng
      | Some False \<Rightarrow>
          Inr (eng\<lparr> topics := map (\<lambda>(topic_name, t). (topic_name, build_topic ext t)) (topics eng),
                    cache_built := Some True \<rparr>))"

text \<open>\<^verbatim>\<open>_set_user\<close>; the call of \<^verbatim>\<open>Script.set_user\<close> is left out.\<close>

definition set_user :: "'ast ChatbotEngine \<Rightarrow> user \<Rightarrow> exn + 'ast ChatbotEngine" where
  "set_user eng u =
     (let uv = (if map_of (uservars eng) u = None
                then dict_set u [(''__topic__'', ''all'')] (uservars eng)
                else uservars eng)
      in case map_of uv u of
           None \<Rightarrow> Inl KeyError
         | Some vars \<Rightarrow>
             (case map_of vars ''__topic__'' of
                None \<Rightarrow> Inl KeyError
              | Some topic \<Rightarrow>
                  (if map_of (topics eng) topic = None
                   then Inr (eng\<lparr>uservars := dict_set u (dict_set ''__topic__'' ''all'' vars) uv\<rparr>)
                   else Inr (eng\<lparr>uservars := uv\<rparr>))))"

text \<open>
  \<^verbatim>\<open>int(s)\<close> for the rest of a group name. A group name is an identifier, so \<open>s\<close> has
  no sign and no white space, and \<^verbatim>\<open>int\<close> returns exactly when \<open>s\<close> is a non-empty row
  of digits.
\<close>

definition is_digit :: "char \<Rightarrow> bool" where
  "is_digit c = (let n = (of_char c :: nat) in 48 \<le> n \<and> n \<le> 57)"

definition py_int :: "string \<Rightarrow> int option" where
  "py_int s =
     (if s \<noteq> [] \<and> list_all is_digit s
      then Some (foldl (\<lambda>a c. 10 * a + (int (of_char c) - 48)) 0 s)
      else None)"

text \<open>\<^verbatim>\<open>_match_dict\<close>, with the dictionary \<open>matches\<close> built so far.\<close>

fun match_dict ::
  "(string \<times> string option) list \<Rightarrow> (int \<times> string option) list
     \<Rightarrow> exn + (int \<times> string option) list" where
  "match_dict [] matches = Inr matches"
| "match_dict ((k, v) # re_dict) matches =
     (case py_int (drop 5 k) of
        None \<Rightarrow> Inl ValueError
      | Some i \<Rightarrow> match_dict re_dict (dict_set i v matches))"

text \<open>
  \<^verbatim>\<open>reply(user, message, depth)\<close>, the loop over the sorted rules (\<open>scan\<close>) and the call
  of a handler (\<open>run_handler\<close>). A handler may call reply again, and nothing in the source
  bounds that, so the three functions take fuel: a call of reply by a handler, and what the
  handler does after it, run on one unit less, and \<open>None\<close> says that the fuel did not
  suffice. Otherwise the result is what reply returns or raises, and the engine afterwards.

  \<open>scan\<close> returns the value of the variable \<^verbatim>\<open>reply\<close> at the end of the loop: the empty
  string unless a handler returned. Reading \<^verbatim>\<open>rule.regexc\<close> raises AttributeError when
  the attribute was never assigned. An exception of a handler that derives from
  \<^verbatim>\<open>Exception\<close> is caught and the loop goes on (\<^verbatim>\<open>continue\<close>); after a handler has
  returned the loop ends (\<^verbatim>\<open>break\<close>). Neither \<open>depth\<close> nor \<open>depth_limit\<close> is read.
\<close>

fun reply ::
    "nat \<Rightarrow> 'ast externals \<Rightarrow> 'ast ChatbotEngine \<Rightarrow> user \<Rightarrow> string \<Rightarrow> int
       \<Rightarrow> ((exn + string) \<times> 'ast ChatbotEngine) option"
  and scan ::
    "nat \<Rightarrow> 'ast externals \<Rightarrow> 'ast ChatbotEngine \<Rightarrow> 'ast Rule list \<Rightarrow> string
       \<Rightarrow> ((exn + pyval) \<times> 'ast ChatbotEngine) option"
  and run_handler ::
    "nat \<Rightarrow> 'ast externals \<Rightarrow> 'ast ChatbotEngine \<Rightarrow> handler
       \<Rightarrow> ((exn + pyval) \<times> 'ast ChatbotEngine) option" where
  "reply fuel ext eng u message depth =
     (case set_user eng u of
        Inl e \<Rightarrow> Some (Inl e, eng)
      | Inr eng1 \<Rightarrow>
          (case build_cache ext eng1 of
             Inl e \<Rightarrow> Some (Inl e, eng1)
           | Inr eng2 \<Rightarrow>
               (case Target_init message None of
                  Inl e \<Rightarrow> Some (Inl e, eng2)
                | Inr target \<Rightarrow>
                    (case map_of (topics eng2) ''all'' of
                       None \<Rightarrow> Some (Inl KeyError, eng2)
                     | Some t \<Rightarrow>
                         (case scan fuel ext eng2 (sortedrules t) (normalized target) of
                            None \<Rightarrow> None
                          | Some (Inl e, eng3) \<Rightarrow> Some (Inl e, eng3)
                          | Some (Inr v, eng3) \<Rightarrow> Some (Inr (py_str v), eng3))))))"
| "scan fuel ext eng [] norm = Some (Inr (PStr []), eng)"
| "scan fuel ext eng (r # rs) norm =
     (case regexc r of
        None \<Rightarrow> Some (Inl AttributeError, eng)
      | Some rx \<Rightarrow>
          (case re_match ext rx norm of
             None \<Rightarrow> scan fuel ext eng rs norm
           | Some groupdict \<Rightarrow>
               (case match_dict groupdict [] of
                  Inl e \<Rightarrow> Some (Inl e, eng)
                | Inr matches \<Rightarrow>
                    (case run_handler fuel ext (eng\<lparr>script_match := matches\<rparr>) (m_body (rule r)) of
                       None \<Rightarrow> None
                     | Some (Inl e, eng') \<Rightarrow>
                         (if is_Exception e then scan fuel ext eng' rs norm
                          else Some (Inl e, eng'))
                     | Some (Inr v, eng') \<Rightarrow> Some (Inr v, eng')))))"
| "run_handler fuel ext eng (Return v) = Some (Inr v, eng)"
| "run_handler fuel ext eng (Raise e) = Some (Inl e, eng)"
| "run_handler 0 ext eng (CallReply u message depth k) = None"
| "run_handler (Suc fuel) ext eng (CallReply u message depth k) =
     (case reply fuel ext eng u message depth of
        None \<Rightarrow> None
      | Some (res, eng') \<Rightarrow> run_handler fuel ext eng' (k res))"

section \<open>A small instance of the collaborators\<close>

text \<open>
  For evaluating the engine on concrete scripts: a pattern is its own tree; the pattern
  \<^verbatim>\<open>*\<close> renders to \<^verbatim>\<open>.*\<close>, a pattern \<^verbatim>\<open>@name\<close> renders to the alternate of that
  name and fails when there is none, every other pattern renders to itself; and
  \<open>lit_match\<close> knows the expression \<^verbatim>\<open>.*$\<close> and expressions without operators.
\<close>

definition lit_parse :: "string \<Rightarrow> string list + string" where
  "lit_parse p = (if p = [] then Inl [''empty pattern''] else Inr p)"

definition lit_score :: "string \<Rightarrow> int" where
  "lit_score p = (if p = ''*'' then 0 else 1)"

definition lit_regex :: "string \<Rightarrow> (string \<times> (string \<times> string) list) list \<Rightarrow> string option" where
  "lit_regex p d =
     (if p = ''*'' then Some ''.*''
      else (case p of
              [] \<Rightarrow> Some p
            | c # name \<Rightarrow>
                (if c = CHR ''@''
                 then (case map_of d ''a'' of None \<Rightarrow> None | Some alts \<Rightarrow> map_of alts name)
                 else Some p)))"

definition lit_match :: "string \<Rightarrow> string \<Rightarrow> (string \<times> string option) list option" where
  "lit_match rx s = (if rx = ''.*$'' \<or> rx = s @ ''$'' then Some [] else None)"

definition lit_ext :: "string externals" where
  "lit_ext = \<lparr> pp_parse = lit_parse, pp_format = (\<lambda>p. p), pp_score = lit_score,
               pp_regex = lit_regex, re_match = lit_match \<rparr>"

text \<open>A method as the decorator \<^verbatim>\<open>@pattern(pattern, previous, weight)\<close> leaves it.\<close>

definition pattern_method :: "nat \<Rightarrow> string \<Rightarrow> string \<Rightarrow> int \<Rightarrow> handler \<Rightarrow> bound_method" where
  "pattern_method i p q w h =
     \<lparr> m_id = i, m_args = [''self'', ''pattern'', ''previous'', ''weight''],
       m_varargs = None, m_keywords = None,
       m_defaults = Some [DStr p, DStr q, DInt w], m_body = h \<rparr>"

definition script :: "string \<Rightarrow> (string \<times> attribute) list \<Rightarrow> script_class" where
  "script topic attrs =
     \<lparr> sc_module = ''_scripts_example'', sc_name = ''Example'', sc_topic = topic,
       sc_init = None, sc_setUp = None, sc_dir = attrs \<rparr>"

text \<open>
  The engine after \<^verbatim>\<open>ChatbotEngine()\<close> and one \<^verbatim>\<open>load_scripts\<close> of a directory whose
  files register the classes of \<open>registry\<close>.
\<close>

definition after_load :: "script_class list \<Rightarrow> string ChatbotEngine" where
  "after_load registry =
     (case load_scripts lit_ext (ChatbotEngine_init False 50) True registry of
        Inl e \<Rightarrow> ChatbotEngine_init False 50
      | Inr eng \<Rightarrow> eng)"

text \<open>The scripts that the evaluations below load.\<close>

definition echo :: "exn + string \<Rightarrow> handler" where
  "echo res = (case res of Inl e \<Rightarrow> Raise e | Inr s \<Rightarrow> Return (PStr s))"

definition looping_script :: script_class where
  "looping_script =
     script ''all''
       [(''pattern_again'', Function (pattern_method 1 ''*'' [] 0 (CallReply ''u'' ''again'' 1 echo)))]"

definition failing_script :: script_class where
  "failing_script =
     script ''all''
       [(''pattern_any'', Function (pattern_method 1 ''*'' [] 0 (Return (PStr ''fallback'')))),
        (''pattern_hello'',
           Function (pattern_method 2 ''hello'' [] 5 (Raise (ScriptError ''boom''))))]"

definition two_matching_script :: script_class where
  "two_matching_script =
     script ''all''
       [(''pattern_any'', Function (pattern_method 1 ''*'' [] 3 (Return (PStr ''light'')))),
        (''pattern_hello'', Function (pattern_method 2 ''hello'' [] 5 (Return (PStr ''heavy''))))]"

definition equal_weight_script :: script_class where
  "equal_weight_script =
     script ''all''
       [(''pattern_any'', Function (pattern_method 1 ''*'' [] 0 (Return (PStr ''what?'')))),
        (''pattern_hello'', Function (pattern_method 2 ''hello'' [] 0 (Return (PStr ''hi''))))]"

definition lone_failing_script :: script_class where
  "lone_failing_script =
     script ''all''
       [(''pattern_hello'',
           Function (pattern_method 2 ''hello'' [] 5 (Raise (ScriptError ''boom''))))]"

definition unknown_alternate_script :: script_class where
  "unknown_alternate_script =
     script ''all''
       [(''pattern_shade'', Function (pattern_method 1 ''@shades'' [] 0 (Return (PStr ''nice''))))]"

definition same_pattern_script :: script_class where
  "same_pattern_script =
     script ''all''
       [(''pattern_a'',
           Function (pattern_method 1 ''hello'' ''how are you'' 0 (Return (PStr ''fine'')))),
        (''pattern_b'',
           Function (pattern_method 2 ''hello'' ''goodbye'' 0 (Return (PStr ''so soon''))))]"

definition unknown_previous_script :: script_class where
  "unknown_previous_script =
     script ''all''
       [(''pattern_hello'',
           Function (pattern_method 1 ''hello'' ''@shades'' 0 (Return (PStr ''hi there''))))]"

text \<open>
  The engine of \<open>looping_script\<close> with the depth limit \<open>limit\<close>, after reply has
  entered the user and built the cache.
\<close>

definition looping_built :: "int \<Rightarrow> string ChatbotEngine" where
  "looping_built limit =
     projr (build_cache lit_ext
       (projr (set_user ((after_load [looping_script])\<lparr>depth_limit := limit\<rparr>) ''u'')))"

section \<open>Properties of Target\<close>

lemma comprehend_no_substitutions:
  "comprehend (\<lambda>word. do_substitutions word None) ws = Inr (map (\<lambda>w. [w]) ws)"
  by (induction ws) (simp_all add: do_substitutions_def)

lemma join_singletons:
  "join sep (map (join sep) (map (\<lambda>w. [f w]) ws)) = join sep (map f ws)"
  by (induction ws rule: induct_list012) simp_all

lemma join_append:
  "xs \<noteq> [] \<Longrightarrow> ys \<noteq> [] \<Longrightarrow> join sep (xs @ ys) = join sep xs @ sep @ join sep ys"
proof (induction xs rule: induct_list012)
  case (2 x)
  then show ?case by (cases ys) simp_all
qed simp_all

lemma Target_init_None:
  "Target_init text None =
     Inr \<lparr> orig_text = text,
           orig_words = re_split_ws re_UNICODE 0 text,
           tokenized_words =
             map (\<lambda>w. [kill_non_alphanumerics (lower w)]) (re_split_ws re_UNICODE 0 text),
           normalized =
             join '' '' (map (\<lambda>w. kill_non_alphanumerics (lower w))
               (re_split_ws re_UNICODE 0 text)) \<rparr>"
  using join_singletons [of "'' ''" "\<lambda>w. kill_non_alphanumerics w"
      "map lower (re_split_ws re_UNICODE 0 text)"]
  by (simp add: Target_init_def Let_def comprehend_no_substitutions comp_def)

lemma re_split_ws_not_Nil: "re_split_ws maxsplit n s \<noteq> []"
  by (subst re_split_ws.simps) simp

lemma Target_init_Some: "Target_init text (Some table) = Inl AttributeError"
proof -
  obtain w ws where "map lower (re_split_ws re_UNICODE 0 text) = w # ws"
    using re_split_ws_not_Nil [of re_UNICODE 0 "text"]
    by (cases "re_split_ws re_UNICODE 0 text") simp_all
  then show ?thesis
    by (simp add: Target_init_def Let_def do_substitutions_def)
qed

text \<open>
  C9. For every input text the constructor of Target (called as reply calls it, without a
  substitution table) returns, and whenever it returns, \<open>normalized\<close> is the tokens of all
  groups of \<open>tokenized_words\<close>, in order, joined with single spaces. Joining keeps empty
  tokens: an empty token between two non-empty runs of tokens leaves two consecutive spaces
  there.
\<close>

theorem normalized_joins_every_token:
  "(\<exists>t. Target_init text None = Inr t)
   \<and> (Target_init text subs = Inr t \<longrightarrow>
        normalized t = join '' '' (concat (tokenized_words t)))
   \<and> (ts \<noteq> [] \<and> us \<noteq> [] \<longrightarrow>
        join '' '' (ts @ [[]] @ us) = join '' '' ts @ ''  '' @ join '' '' us)"
proof (intro conjI impI)
  show "\<exists>t. Target_init text None = Inr t"
    by (simp add: Target_init_None)
next
  assume a: "Target_init text subs = Inr t"
  then have "subs = None"
    by (cases subs) (simp_all add: Target_init_Some)
  with a have "t = \<lparr> orig_text = text,
           orig_words = re_split_ws re_UNICODE 0 text,
           tokenized_words =
             map (\<lambda>w. [kill_non_alphanumerics (lower w)]) (re_split_ws re_UNICODE 0 text),
           normalized =
             join '' '' (map (\<lambda>w. kill_non_alphanumerics (lower w))
               (re_split_ws re_UNICODE 0 text)) \<rparr>"
    by (simp add: Target_init_None)
  then show "normalized t = join '' '' (concat (tokenized_words t))"
    by (simp add: concat_map_singleton)
next
  assume "ts \<noteq> [] \<and> us \<noteq> []"
  then have "join '' '' (ts @ ([] # us)) = join '' '' ts @ '' '' @ join '' '' ([] # us)"
    and "join '' '' ([] # us) = '' '' @ join '' '' us"
    by (simp add: join_append, cases us) simp_all
  then show "join '' '' (ts @ [[]] @ us) = join '' '' ts @ ''  '' @ join '' '' us"
    by simp
qed

theorem normalized_joins_every_token_witness:
  "Target_init ''hi :) there'' None
     = Inr \<lparr> orig_text = ''hi :) there'', orig_words = [''hi'', '':)'', ''there''],
             tokenized_words = [[''hi''], [[]], [''there'']], normalized = ''hi  there'' \<rparr>
   \<and> ''hi  there'' = join '' '' (concat [[''hi''], [[]], [''there'']])
   \<and> join '' '' ([''hi''] @ [[]] @ [''there'']) = join '' '' [''hi''] @ ''  '' @ join '' '' [''there'']"
proof -
  have e: "Target_init ''hi :) there'' None
     = Inr \<lparr> orig_text = ''hi :) there'', orig_words = [''hi'', '':)'', ''there''],
             tokenized_words = [[''hi''], [[]], [''there'']], normalized = ''hi  there'' \<rparr>"
    by code_simp
  from normalized_joins_every_token
    [of "''hi :) there''" None
        "\<lparr> orig_text = ''hi :) there'', orig_words = [''hi'', '':)'', ''there''],
           tokenized_words = [[''hi''], [[]], [''there'']], normalized = ''hi  there'' \<rparr>"
        "[''hi'']" "[''there'']"] e
  show ?thesis by simp
qed

text \<open>
  C6. The example of the docstring of Target, evaluated. With the substitution table the
  constructor raises AttributeError; without a table, which is how reply constructs its
  Target, the apostrophe is deleted and no word is expanded.
\<close>

theorem substitution_example_raises:
  "Target_init ''I'm tired today!'' (Some [(''i'm'', ''i am'')]) = Inl AttributeError
   \<and> map_sum id normalized (Target_init ''I'm tired today!'' None) = Inr ''im tired today''"
  by code_simp

text \<open>
  C8. A text of 34 words: \<open>orig_words\<close> has 33 elements, and the last one holds the
  33rd and the 34th word and the space between them.
\<close>

theorem orig_words_merges_after_32_splits:
  "map_sum id orig_words
     (Target_init ''a a a a a a a a a a a a a a a a a a a a a a a a a a a a a a a a b c'' None)
   = Inr (replicate 32 ''a'' @ [''b c''])"
  by code_simp

section \<open>Properties of the engine\<close>

lemma insort_lt_set: "set (insort_lt x xs) = insert x (set xs)"
  by (induction xs) auto

lemma insort_lt_sorted:
  "sorted_wrt (\<lambda>a b. \<not> Rule_lt b a) xs \<Longrightarrow> sorted_wrt (\<lambda>a b. \<not> Rule_lt b a) (insort_lt x xs)"
  by (induction xs) (auto simp: insort_lt_set Rule_lt_def)

lemma py_sort_sorted: "sorted_wrt (\<lambda>a b. \<not> Rule_lt b a) (py_sort xs)"
  unfolding py_sort_def by (induction xs) (simp_all add: insort_lt_sorted)

lemma py_sort_set: "set (py_sort xs) = set xs"
  unfolding py_sort_def by (induction xs) (simp_all add: insort_lt_set)

lemma insort_lt_length: "length (insort_lt x xs) = Suc (length xs)"
  by (induction xs) simp_all

lemma py_sort_length: "length (py_sort xs) = length xs"
  unfolding py_sort_def by (induction xs) (simp_all add: insort_lt_length)

lemma sorted_reverse_descending: "sorted_wrt (\<lambda>a b. \<not> Rule_lt a b) (sorted_reverse xs)"
  unfolding sorted_reverse_def by (simp add: sorted_wrt_rev py_sort_sorted)

lemma sorted_reverse_set: "set (sorted_reverse xs) = set xs"
  unfolding sorted_reverse_def by (simp add: py_sort_set)

lemma sorted_reverse_length: "length (sorted_reverse xs) = length xs"
  unfolding sorted_reverse_def by (simp add: py_sort_length)

lemma cache_regexes_keeps:
  "weight (cache_regexes ext r d) = weight r" "score (cache_regexes ext r d) = score r"
  "rule (cache_regexes ext r d) = rule r" "rulename (cache_regexes ext r d) = rulename r"
  by (simp_all add: cache_regexes_def get_regexc_def split: option.splits)

lemma cache_regexes_regexc:
  "regexc (cache_regexes ext r d) =
     (case pp_regex ext (pattern_tree r) d of Some s \<Rightarrow> Some (s @ ''$'') | None \<Rightarrow> regexc r)"
  by (simp add: cache_regexes_def get_regexc_def split: option.splits)

lemma build_topic_sortedrules_descending:
  "sorted_wrt (\<lambda>a b. \<not> Rule_lt a b) (sortedrules (build_topic ext t))"
  using sorted_reverse_descending [of "map snd (rules t)"]
  by (simp add: build_topic_def Let_def sorted_wrt_map Rule_lt_def cache_regexes_keeps)

lemma map_of_map_value:
  "map_of (map (\<lambda>(k, v). (k, f v)) xs) k = map_option f (map_of xs k)"
  by (induction xs) auto

lemma scan_skips_non_matching:
  "\<forall>p\<in>set pre. \<exists>rx. regexc p = Some rx \<and> re_match ext rx norm = None \<Longrightarrow>
   scan fuel ext eng (pre @ rest) norm = scan fuel ext eng rest norm"
  by (induction pre) auto

lemma build_cache_topic:
  assumes "cache_built eng = Some False" and "build_cache ext eng = Inr eng'"
    and "map_of (topics eng') name = Some t"
  shows "\<exists>t0. map_of (topics eng) name = Some t0 \<and> t = build_topic ext t0"
  using assms by (auto simp: build_cache_def map_of_map_value)

lemma descending_index:
  assumes "sorted_wrt (\<lambda>a b. \<not> Rule_lt a b) s" and "i < length s" and "j < length s"
    and "Rule_gt (s ! i) (s ! j)"
  shows "i < j"
proof (rule ccontr)
  assume "\<not> i < j"
  then consider "i = j" | "j < i" by linarith
  then show False
  proof cases
    case 1
    with assms(4) show False by (simp add: Rule_gt_def)
  next
    case 2
    with assms(1,2) have "\<not> Rule_lt (s ! j) (s ! i)"
      by (simp add: sorted_wrt_iff_nth_less)
    with assms(4) show False by (auto simp: Rule_gt_def Rule_lt_def)
  qed
qed

lemma build_topic_sortedrules_set:
  "set (sortedrules (build_topic ext t)) = snd ` set (rules (build_topic ext t))"
  by (force simp: build_topic_def Let_def sorted_reverse_set image_iff)

lemma set_user_keeps:
  "set_user eng u = Inr eng1 \<Longrightarrow> cache_built eng1 = cache_built eng \<and> topics eng1 = topics eng"
  by (auto simp: set_user_def Let_def split: option.splits if_splits)

lemmas eval_defs =
  after_load_def load_scripts_def ChatbotEngine_init_def fresh_topics_def Topic_init_def
  script_def pattern_method_def load_script_def new_topic_def load_attribute_def
  load_pattern_def check_pattern_spec_def Rule_init_def lit_ext_def lit_parse_def lit_score_def
  lit_regex_def lit_match_def build_cache_def build_topic_def sorted_reverse_def py_sort_def
  cache_regexes_def get_regexc_def Rule_lt_def set_user_def Let_def

text \<open>
  C10. \<^verbatim>\<open>load_scripts\<close> of something that is not a directory leaves the engine as it
  is, so an engine on which no other \<^verbatim>\<open>load_scripts\<close> was called is the engine that the
  constructor made. On that engine reply enters the user and then raises AttributeError:
  \<^verbatim>\<open>build_cache\<close> reads \<^verbatim>\<open>cache_built\<close>, which the constructor does not assign.
\<close>

theorem reply_before_load_scripts_raises:
  "load_scripts ext eng False registry = Inr eng
   \<and> reply fuel ext (ChatbotEngine_init debug depth) u message d
       = Some (Inl AttributeError,
               (ChatbotEngine_init debug depth)\<lparr>uservars := [(u, [(''__topic__'', ''all'')])]\<rparr>)"
  by (simp add: load_scripts_def ChatbotEngine_init_def set_user_def build_cache_def
      fresh_topics_def Topic_init_def)

lemma reply_unfold:
  assumes "set_user eng u = Inr eng1" and "build_cache ext eng1 = Inr eng2"
    and "map_of (topics eng2) ''all'' = Some t"
  shows "reply fuel ext eng u message depth
         = map_option (\<lambda>(res, eng3). (map_sum id py_str res, eng3))
             (scan fuel ext eng2 (sortedrules t)
                (join '' '' (map (\<lambda>w. kill_non_alphanumerics (lower w))
                   (re_split_ws re_UNICODE 0 message))))"
  using assms by (auto simp: Target_init_None split: option.splits sum.splits)

lemma built_topic_of_reply:
  assumes "set_user eng u = Inr eng1"
    and "build_cache ext eng1 = Inr eng2"
    and "cache_built eng = Some False
         \<or> (\<exists>t0. map_of (topics eng) ''all'' = Some (build_topic ext t0))"
    and "map_of (topics eng2) ''all'' = Some t"
  shows "\<exists>t0. t = build_topic ext t0"
proof (cases "cache_built eng = Some False")
  case True
  with set_user_keeps [OF assms(1)] have "cache_built eng1 = Some False"
    by simp
  from build_cache_topic [OF this assms(2,4)] show ?thesis
    by blast
next
  case False
  with assms(3) obtain t0 where t0: "map_of (topics eng) ''all'' = Some (build_topic ext t0)"
    by blast
  with set_user_keeps [OF assms(1)]
  have t1: "map_of (topics eng1) ''all'' = Some (build_topic ext t0)"
    by simp
  show ?thesis
  proof (cases "cache_built eng1")
    case None
    with assms(2) show ?thesis
      by (simp add: build_cache_def)
  next
    case (Some b)
    show ?thesis
    proof (cases b)
      case True
      with Some assms(2) have "eng2 = eng1"
        by (simp add: build_cache_def)
      with t1 assms(4) show ?thesis
        by auto
    next
      case False
      with Some have "cache_built eng1 = Some False"
        by simp
      from build_cache_topic [OF this assms(2,4)] show ?thesis
        by blast
    qed
  qed
qed

text \<open>
  C7. Let reply be called on an engine whose cache is built by this call (or whose topic
  \<^verbatim>\<open>all\<close> is as an earlier \<^verbatim>\<open>build_cache\<close> left it), let \<open>i\<close> be the position in
  \<open>sortedrules\<close> of the first rule whose expression matches the normalized message, and
  let the handler of that rule return \<open>v\<close>. Then reply answers with \<open>v\<close>: the handler of
  no other rule is asked. \<open>sortedrules\<close> holds every rule of the topic, in whatever order
  they were registered, and none of the rules that match has a greater weight than the rule
  at \<open>i\<close>, or the same weight and a greater score. In general a rule of greater weight, or
  of the same weight and greater score, stands before the other in \<open>sortedrules\<close>.
\<close>

theorem heavier_rule_is_tried_first:
  assumes "set_user eng u = Inr eng1"
    and "build_cache ext eng1 = Inr eng2"
    and "cache_built eng = Some False
         \<or> (\<exists>t0. map_of (topics eng) ''all'' = Some (build_topic ext t0))"
    and "map_of (topics eng2) ''all'' = Some t"
    and "Target_init message None = Inr target"
    and "i < length (sortedrules t)"
    and "\<forall>p\<in>set (take i (sortedrules t)).
           \<exists>px. regexc p = Some px \<and> re_match ext px (normalized target) = None"
    and "regexc (sortedrules t ! i) = Some rx"
    and "re_match ext rx (normalized target) = Some groupdict"
    and "match_dict groupdict [] = Inr matches"
    and "run_handler fuel ext (eng2\<lparr>script_match := matches\<rparr>) (m_body (rule (sortedrules t ! i)))
           = Some (Inr v, eng3)"
  shows "reply fuel ext eng u message depth = Some (Inr (py_str v), eng3)
       \<and> set (sortedrules t) = snd ` set (rules t)
       \<and> (\<forall>j<length (sortedrules t).
             (\<exists>jx m. regexc (sortedrules t ! j) = Some jx
                     \<and> re_match ext jx (normalized target) = Some m) \<longrightarrow>
             weight (sortedrules t ! j) \<le> weight (sortedrules t ! i)
             \<and> (weight (sortedrules t ! j) = weight (sortedrules t ! i) \<longrightarrow>
                  score (sortedrules t ! j) \<le> score (sortedrules t ! i)))
       \<and> (\<forall>a b. a < length (sortedrules t) \<and> b < length (sortedrules t)
             \<and> (weight (sortedrules t ! b) < weight (sortedrules t ! a)
                 \<or> (weight (sortedrules t ! b) = weight (sortedrules t ! a)
                     \<and> score (sortedrules t ! b) < score (sortedrules t ! a))) \<longrightarrow>
             a < b)"
proof -
  from built_topic_of_reply [OF assms(1-4)] obtain t0 where t: "t = build_topic ext t0"
    by blast
  have d: "sorted_wrt (\<lambda>a b. \<not> Rule_lt a b) (sortedrules t)"
    unfolding t by (rule build_topic_sortedrules_descending)
  have all_rules: "set (sortedrules t) = snd ` set (rules t)"
    unfolding t by (rule build_topic_sortedrules_set)
  have n: "normalized target
             = join '' '' (map (\<lambda>w. kill_non_alphanumerics (lower w))
                 (re_split_ws re_UNICODE 0 message))"
    using assms(5) by (auto simp: Target_init_None)
  have split: "sortedrules t = take i (sortedrules t) @ sortedrules t ! i # drop (Suc i) (sortedrules t)"
    using assms(6) by (simp add: id_take_nth_drop)
  have s1: "scan fuel ext eng2 (sortedrules t) (normalized target)
              = scan fuel ext eng2 (sortedrules t ! i # drop (Suc i) (sortedrules t)) (normalized target)"
    using scan_skips_non_matching [OF assms(7), of fuel eng2
        "sortedrules t ! i # drop (Suc i) (sortedrules t)"] split
    by simp
  have s2: "scan fuel ext eng2 (sortedrules t ! i # drop (Suc i) (sortedrules t)) (normalized target)
              = Some (Inr v, eng3)"
    using assms(8-11) by simp
  have answer: "reply fuel ext eng u message depth = Some (Inr (py_str v), eng3)"
    using reply_unfold [OF assms(1,2,4), of fuel message depth] s1 s2 n by simp
  have best: "weight (sortedrules t ! j) \<le> weight (sortedrules t ! i)
             \<and> (weight (sortedrules t ! j) = weight (sortedrules t ! i) \<longrightarrow>
                  score (sortedrules t ! j) \<le> score (sortedrules t ! i))"
    if j: "j < length (sortedrules t)"
      and m: "regexc (sortedrules t ! j) = Some jx" "re_match ext jx (normalized target) = Some m"
    for j jx m
  proof -
    have "\<not> j < i"
    proof
      assume "j < i"
      with j have "sortedrules t ! j \<in> set (take i (sortedrules t))"
        by (auto simp: in_set_conv_nth intro!: exI [of _ j])
      with assms(7) m show False
        by auto
    qed
    then consider "j = i" | "i < j" by linarith
    then show ?thesis
    proof cases
      case 1
      then show ?thesis by simp
    next
      case 2
      with d j have "\<not> Rule_lt (sortedrules t ! i) (sortedrules t ! j)"
        by (simp add: sorted_wrt_iff_nth_less)
      then show ?thesis
        by (auto simp: Rule_lt_def)
    qed
  qed
  have order: "a < b"
    if "a < length (sortedrules t)" "b < length (sortedrules t)"
      "weight (sortedrules t ! b) < weight (sortedrules t ! a)
         \<or> (weight (sortedrules t ! b) = weight (sortedrules t ! a)
             \<and> score (sortedrules t ! b) < score (sortedrules t ! a))"
    for a b
    using descending_index [OF d that(1,2)] that(3) by (auto simp: Rule_gt_def)
  show ?thesis
    using answer all_rules best order by blast
qed

text \<open>
  The theorem at three inputs: the message \<^verbatim>\<open>hello\<close>, which a rule of weight 5 and a rule
  of weight 3 registered before it both match; the same message with two rules of weight 0
  and the scores 1 and 0; and the message \<^verbatim>\<open>bye\<close>, which the first of the sorted rules
  does not match.
\<close>

theorem heavier_rule_is_tried_first_witness:
  "(\<exists>eng1 eng2 t target.
      set_user (after_load [two_matching_script]) ''u'' = Inr eng1
      \<and> build_cache lit_ext eng1 = Inr eng2
      \<and> cache_built (after_load [two_matching_script]) = Some False
      \<and> map_of (topics eng2) ''all'' = Some t
      \<and> Target_init ''hello'' None = Inr target
      \<and> 0 < length (sortedrules t)
      \<and> regexc (sortedrules t ! 0) = Some ''hello$''
      \<and> re_match lit_ext ''hello$'' (normalized target) = Some []
      \<and> match_dict [] [] = Inr []
      \<and> run_handler 0 lit_ext (eng2\<lparr>script_match := []\<rparr>) (m_body (rule (sortedrules t ! 0)))
          = Some (Inr (PStr ''heavy''), eng2\<lparr>script_match := []\<rparr>)
      \<and> reply 0 lit_ext (after_load [two_matching_script]) ''u'' ''hello'' 0
          = Some (Inr ''heavy'', eng2\<lparr>script_match := []\<rparr>)
      \<and> set (sortedrules t) = snd ` set (rules t)
      \<and> 1 < length (sortedrules t)
      \<and> regexc (sortedrules t ! 1) = Some ''.*$''
      \<and> re_match lit_ext ''.*$'' (normalized target) = Some []
      \<and> weight (sortedrules t ! 1) < weight (sortedrules t ! 0)
      \<and> weight (sortedrules t ! 1) \<le> weight (sortedrules t ! 0)
      \<and> (0::nat) < 1)
   \<and> (\<exists>eng1 eng2 t target.
      set_user (after_load [equal_weight_script]) ''u'' = Inr eng1
      \<and> build_cache lit_ext eng1 = Inr eng2
      \<and> cache_built (after_load [equal_weight_script]) = Some False
      \<and> map_of (topics eng2) ''all'' = Some t
      \<and> Target_init ''hello'' None = Inr target
      \<and> 0 < length (sortedrules t)
      \<and> regexc (sortedrules t ! 0) = Some ''hello$''
      \<and> re_match lit_ext ''hello$'' (normalized target) = Some []
      \<and> match_dict [] [] = Inr []
      \<and> run_handler 0 lit_ext (eng2\<lparr>script_match := []\<rparr>) (m_body (rule (sortedrules t ! 0)))
          = Some (Inr (PStr ''hi''), eng2\<lparr>script_match := []\<rparr>)
      \<and> reply 0 lit_ext (after_load [equal_weight_script]) ''u'' ''hello'' 0
          = Some (Inr ''hi'', eng2\<lparr>script_match := []\<rparr>)
      \<and> set (sortedrules t) = snd ` set (rules t)
      \<and> 1 < length (sortedrules t)
      \<and> regexc (sortedrules t ! 1) = Some ''.*$''
      \<and> re_match lit_ext ''.*$'' (normalized target) = Some []
      \<and> weight (sortedrules t ! 1) = weight (sortedrules t ! 0)
      \<and> score (sortedrules t ! 1) < score (sortedrules t ! 0)
      \<and> score (sortedrules t ! 1) \<le> score (sortedrules t ! 0)
      \<and> (0::nat) < 1)
   \<and> (\<exists>eng1 eng2 t target.
      set_user (after_load [equal_weight_script]) ''u'' = Inr eng1
      \<and> build_cache lit_ext eng1 = Inr eng2
      \<and> cache_built (after_load [equal_weight_script]) = Some False
      \<and> map_of (topics eng2) ''all'' = Some t
      \<and> Target_init ''bye'' None = Inr target
      \<and> 1 < length (sortedrules t)
      \<and> take 1 (sortedrules t) = [sortedrules t ! 0]
      \<and> regexc (sortedrules t ! 0) = Some ''hello$''
      \<and> re_match lit_ext ''hello$'' (normalized target) = None
      \<and> regexc (sortedrules t ! 1) = Some ''.*$''
      \<and> re_match lit_ext ''.*$'' (normalized target) = Some []
      \<and> match_dict [] [] = Inr []
      \<and> run_handler 0 lit_ext (eng2\<lparr>script_match := []\<rparr>) (m_body (rule (sortedrules t ! 1)))
          = Some (Inr (PStr ''what?''), eng2\<lparr>script_match := []\<rparr>)
      \<and> reply 0 lit_ext (after_load [equal_weight_script]) ''u'' ''bye'' 0
          = Some (Inr ''what?'', eng2\<lparr>script_match := []\<rparr>)
      \<and> set (sortedrules t) = snd ` set (rules t))"
proof -
  have first: "\<exists>eng1 eng2 t target.
      set_user (after_load [two_matching_script]) ''u'' = Inr eng1
      \<and> build_cache lit_ext eng1 = Inr eng2
      \<and> cache_built (after_load [two_matching_script]) = Some False
      \<and> map_of (topics eng2) ''all'' = Some t
      \<and> Target_init ''hello'' None = Inr target
      \<and> 0 < length (sortedrules t)
      \<and> regexc (sortedrules t ! 0) = Some ''hello$''
      \<and> re_match lit_ext ''hello$'' (normalized target) = Some []
      \<and> match_dict [] [] = Inr []
      \<and> run_handler 0 lit_ext (eng2\<lparr>script_match := []\<rparr>) (m_body (rule (sortedrules t ! 0)))
          = Some (Inr (PStr ''heavy''), eng2\<lparr>script_match := []\<rparr>)
      \<and> reply 0 lit_ext (after_load [two_matching_script]) ''u'' ''hello'' 0
          = Some (Inr ''heavy'', eng2\<lparr>script_match := []\<rparr>)
      \<and> set (sortedrules t) = snd ` set (rules t)
      \<and> 1 < length (sortedrules t)
      \<and> regexc (sortedrules t ! 1) = Some ''.*$''
      \<and> re_match lit_ext ''.*$'' (normalized target) = Some []
      \<and> weight (sortedrules t ! 1) < weight (sortedrules t ! 0)
      \<and> weight (sortedrules t ! 1) \<le> weight (sortedrules t ! 0)
      \<and> (0::nat) < 1"
  proof -
    define eng1 where "eng1 = projr (set_user (after_load [two_matching_script]) ''u'')"
    define eng2 where "eng2 = projr (build_cache lit_ext eng1)"
    define t where "t = the (map_of (topics eng2) ''all'')"
    define target where
      "target = \<lparr> orig_text = ''hello'', orig_words = [''hello''],
                   tokenized_words = [[''hello'']], normalized = ''hello'' \<rparr>"
    have tg: "Target_init ''hello'' None
                = Inr \<lparr> orig_text = ''hello'', orig_words = [''hello''],
                        tokenized_words = [[''hello'']], normalized = ''hello'' \<rparr>"
      by code_simp
    have a5: "Target_init ''hello'' None = Inr target"
      by (simp add: tg target_def)
    have a1: "set_user (after_load [two_matching_script]) ''u'' = Inr eng1"
      by (simp add: eng1_def eval_defs two_matching_script_def)
    have a2: "build_cache lit_ext eng1 = Inr eng2"
      by (simp add: eng2_def eng1_def eval_defs two_matching_script_def)
    have a3: "cache_built (after_load [two_matching_script]) = Some False"
      by (simp add: eval_defs two_matching_script_def)
    have a4: "map_of (topics eng2) ''all'' = Some t"
      by (simp add: t_def eng2_def eng1_def eval_defs two_matching_script_def)
    have a6: "0 < length (sortedrules t)"
      by (simp add: t_def eng2_def eng1_def eval_defs two_matching_script_def)
    have pre: "take 0 (sortedrules t) = []"
      by (simp add: t_def eng2_def eng1_def eval_defs two_matching_script_def)
    have a7: "\<forall>p\<in>set (take 0 (sortedrules t)).
           \<exists>px. regexc p = Some px \<and> re_match lit_ext px (normalized target) = None"
      unfolding pre by simp
    have a8: "regexc (sortedrules t ! 0) = Some ''hello$''"
      by (simp add: t_def eng2_def eng1_def eval_defs two_matching_script_def)
    have a9: "re_match lit_ext ''hello$'' (normalized target) = Some []"
      by (simp add: target_def lit_ext_def lit_match_def)
    have a10: "match_dict [] [] = Inr []"
      by simp
    have a11: "run_handler 0 lit_ext (eng2\<lparr>script_match := []\<rparr>) (m_body (rule (sortedrules t ! 0)))
                 = Some (Inr (PStr ''heavy''), eng2\<lparr>script_match := []\<rparr>)"
      by (simp add: t_def eng2_def eng1_def eval_defs two_matching_script_def)
    have b1: "1 < length (sortedrules t)"
      by (simp add: t_def eng2_def eng1_def eval_defs two_matching_script_def)
    have b2: "regexc (sortedrules t ! 1) = Some ''.*$''"
      by (simp add: t_def eng2_def eng1_def eval_defs two_matching_script_def)
    have b3: "re_match lit_ext ''.*$'' (normalized target) = Some []"
      by (simp add: target_def lit_ext_def lit_match_def)
    have b4: "weight (sortedrules t ! 1) < weight (sortedrules t ! 0)"
      by (simp add: t_def eng2_def eng1_def eval_defs two_matching_script_def)
    note th = heavier_rule_is_tried_first
        [OF a1 a2 disjI1 [OF a3] a4 a5 a6 a7 a8 a9 a10 a11, of 0]
    from th have c1: "reply 0 lit_ext (after_load [two_matching_script]) ''u'' ''hello'' 0
          = Some (Inr ''heavy'', eng2\<lparr>script_match := []\<rparr>)"
      by simp
    from th have c2: "set (sortedrules t) = snd ` set (rules t)"
      by simp
    from th b1 b2 b3 have c3: "weight (sortedrules t ! 1) \<le> weight (sortedrules t ! 0)"
      by blast
    from th a6 b1 b4 have c4: "(0::nat) < 1"
      by blast
    from a1 a2 a3 a4 a5 a6 a8 a9 a10 a11 c1 c2 b1 b2 b3 b4 c3 c4 show ?thesis
      by blast
  qed
  have second: "\<exists>eng1 eng2 t target.
      set_user (after_load [equal_weight_script]) ''u'' = Inr eng1
      \<and> build_cache lit_ext eng1 = Inr eng2
      \<and> cache_built (after_load [equal_weight_script]) = Some False
      \<and> map_of (topics eng2) ''all'' = Some t
      \<and> Target_init ''hello'' None = Inr target
      \<and> 0 < length (sortedrules t)
      \<and> regexc (sortedrules t ! 0) = Some ''hello$''
      \<and> re_match lit_ext ''hello$'' (normalized target) = Some []
      \<and> match_dict [] [] = Inr []
      \<and> run_handler 0 lit_ext (eng2\<lparr>script_match := []\<rparr>) (m_body (rule (sortedrules t ! 0)))
          = Some (Inr (PStr ''hi''), eng2\<lparr>script_match := []\<rparr>)
      \<and> reply 0 lit_ext (after_load [equal_weight_script]) ''u'' ''hello'' 0
          = Some (Inr ''hi'', eng2\<lparr>script_match := []\<rparr>)
      \<and> set (sortedrules t) = snd ` set (rules t)
      \<and> 1 < length (sortedrules t)
      \<and> regexc (sortedrules t ! 1) = Some ''.*$''
      \<and> re_match lit_ext ''.*$'' (normalized target) = Some []
      \<and> weight (sortedrules t ! 1) = weight (sortedrules t ! 0)
      \<and> score (sortedrules t ! 1) < score (sortedrules t ! 0)
      \<and> score (sortedrules t ! 1) \<le> score (sortedrules t ! 0)
      \<and> (0::nat) < 1"
  proof -
    define eng1 where "eng1 = projr (set_user (after_load [equal_weight_script]) ''u'')"
    define eng2 where "eng2 = projr (build_cache lit_ext eng1)"
    define t where "t = the (map_of (topics eng2) ''all'')"
    define target where
      "target = \<lparr> orig_text = ''hello'', orig_words = [''hello''],
                   tokenized_words = [[''hello'']], normalized = ''hello'' \<rparr>"
    have tg: "Target_init ''hello'' None
                = Inr \<lparr> orig_text = ''hello'', orig_words = [''hello''],
                        tokenized_words = [[''hello'']], normalized = ''hello'' \<rparr>"
      by code_simp
    have a5: "Target_init ''hello'' None = Inr target"
      by (simp add: tg target_def)
    have a1: "set_user (after_load [equal_weight_script]) ''u'' = Inr eng1"
      by (simp add: eng1_def eval_defs equal_weight_script_def)
    have a2: "build_cache lit_ext eng1 = Inr eng2"
      by (simp add: eng2_def eng1_def eval_defs equal_weight_script_def)
    have a3: "cache_built (after_load [equal_weight_script]) = Some False"
      by (simp add: eval_defs equal_weight_script_def)
    have a4: "map_of (topics eng2) ''all'' = Some t"
      by (simp add: t_def eng2_def eng1_def eval_defs equal_weight_script_def)
    have a6: "0 < length (sortedrules t)"
      by (simp add: t_def eng2_def eng1_def eval_defs equal_weight_script_def)
    have pre: "take 0 (sortedrules t) = []"
      by (simp add: t_def eng2_def eng1_def eval_defs equal_weight_script_def)
    have a7: "\<forall>p\<in>set (take 0 (sortedrules t)).
           \<exists>px. regexc p = Some px \<and> re_match lit_ext px (normalized target) = None"
      unfolding pre by simp
    have a8: "regexc (sortedrules t ! 0) = Some ''hello$''"
      by (simp add: t_def eng2_def eng1_def eval_defs equal_weight_script_def)
    have a9: "re_match lit_ext ''hello$'' (normalized target) = Some []"
      by (simp add: target_def lit_ext_def lit_match_def)
    have a10: "match_dict [] [] = Inr []"
      by simp
    have a11: "run_handler 0 lit_ext (eng2\<lparr>script_match := []\<rparr>) (m_body (rule (sortedrules t ! 0)))
                 = Some (Inr (PStr ''hi''), eng2\<lparr>script_match := []\<rparr>)"
      by (simp add: t_def eng2_def eng1_def eval_defs equal_weight_script_def)
    have b1: "1 < length (sortedrules t)"
      by (simp add: t_def eng2_def eng1_def eval_defs equal_weight_script_def)
    have b2: "regexc (sortedrules t ! 1) = Some ''.*$''"
      by (simp add: t_def eng2_def eng1_def eval_defs equal_weight_script_def)
    have b3: "re_match lit_ext ''.*$'' (normalized target) = Some []"
      by (simp add: target_def lit_ext_def lit_match_def)
    have b4: "weight (sortedrules t ! 1) = weight (sortedrules t ! 0) \<and> score (sortedrules t ! 1) < score (sortedrules t ! 0)"
      by (simp add: t_def eng2_def eng1_def eval_defs equal_weight_script_def)
    note th = heavier_rule_is_tried_first
        [OF a1 a2 disjI1 [OF a3] a4 a5 a6 a7 a8 a9 a10 a11, of 0]
    from th have c1: "reply 0 lit_ext (after_load [equal_weight_script]) ''u'' ''hello'' 0
          = Some (Inr ''hi'', eng2\<lparr>script_match := []\<rparr>)"
      by simp
    from th have c2: "set (sortedrules t) = snd ` set (rules t)"
      by simp
    from th b1 b2 b3 b4 have c3: "score (sortedrules t ! 1) \<le> score (sortedrules t ! 0)"
      by blast
    from th a6 b1 b4 have c4: "(0::nat) < 1"
      by blast
    from a1 a2 a3 a4 a5 a6 a8 a9 a10 a11 c1 c2 b1 b2 b3 b4 c3 c4 show ?thesis
      by blast
  qed
  have third: "\<exists>eng1 eng2 t target.
      set_user (after_load [equal_weight_script]) ''u'' = Inr eng1
      \<and> build_cache lit_ext eng1 = Inr eng2
      \<and> cache_built (after_load [equal_weight_script]) = Some False
      \<and> map_of (topics eng2) ''all'' = Some t
      \<and> Target_init ''bye'' None = Inr target
      \<and> 1 < length (sortedrules t)
      \<and> take 1 (sortedrules t) = [sortedrules t ! 0]
      \<and> regexc (sortedrules t ! 0) = Some ''hello$''
      \<and> re_match lit_ext ''hello$'' (normalized target) = None
      \<and> regexc (sortedrules t ! 1) = Some ''.*$''
      \<and> re_match lit_ext ''.*$'' (normalized target) = Some []
      \<and> match_dict [] [] = Inr []
      \<and> run_handler 0 lit_ext (eng2\<lparr>script_match := []\<rparr>) (m_body (rule (sortedrules t ! 1)))
          = Some (Inr (PStr ''what?''), eng2\<lparr>script_match := []\<rparr>)
      \<and> reply 0 lit_ext (after_load [equal_weight_script]) ''u'' ''bye'' 0
          = Some (Inr ''what?'', eng2\<lparr>script_match := []\<rparr>)
      \<and> set (sortedrules t) = snd ` set (rules t)"
  proof -
    define eng1 where "eng1 = projr (set_user (after_load [equal_weight_script]) ''u'')"
    define eng2 where "eng2 = projr (build_cache lit_ext eng1)"
    define t where "t = the (map_of (topics eng2) ''all'')"
    define target where
      "target = \<lparr> orig_text = ''bye'', orig_words = [''bye''],
                   tokenized_words = [[''bye'']], normalized = ''bye'' \<rparr>"
    have tg: "Target_init ''bye'' None
                = Inr \<lparr> orig_text = ''bye'', orig_words = [''bye''],
                        tokenized_words = [[''bye'']], normalized = ''bye'' \<rparr>"
      by code_simp
    have a5: "Target_init ''bye'' None = Inr target"
      by (simp add: tg target_def)
    have a1: "set_user (after_load [equal_weight_script]) ''u'' = Inr eng1"
      by (simp add: eng1_def eval_defs equal_weight_script_def)
    have a2: "build_cache lit_ext eng1 = Inr eng2"
      by (simp add: eng2_def eng1_def eval_defs equal_weight_script_def)
    have a3: "cache_built (after_load [equal_weight_script]) = Some False"
      by (simp add: eval_defs equal_weight_script_def)
    have a4: "map_of (topics eng2) ''all'' = Some t"
      by (simp add: t_def eng2_def eng1_def eval_defs equal_weight_script_def)
    have a6: "1 < length (sortedrules t)"
      by (simp add: t_def eng2_def eng1_def eval_defs equal_weight_script_def)
    have pre: "take 1 (sortedrules t) = [sortedrules t ! 0]"
      by (simp add: t_def eng2_def eng1_def eval_defs equal_weight_script_def)
    have p0: "regexc (sortedrules t ! 0) = Some ''hello$''"
      by (simp add: t_def eng2_def eng1_def eval_defs equal_weight_script_def)
    have p1: "re_match lit_ext ''hello$'' (normalized target) = None"
      by (simp add: target_def lit_ext_def lit_match_def)
    have a7: "\<forall>p\<in>set (take 1 (sortedrules t)).
           \<exists>px. regexc p = Some px \<and> re_match lit_ext px (normalized target) = None"
      unfolding pre using p0 p1 by simp
    have a8: "regexc (sortedrules t ! 1) = Some ''.*$''"
      by (simp add: t_def eng2_def eng1_def eval_defs equal_weight_script_def)
    have a9: "re_match lit_ext ''.*$'' (normalized target) = Some []"
      by (simp add: target_def lit_ext_def lit_match_def)
    have a10: "match_dict [] [] = Inr []"
      by simp
    have a11: "run_handler 0 lit_ext (eng2\<lparr>script_match := []\<rparr>) (m_body (rule (sortedrules t ! 1)))
                 = Some (Inr (PStr ''what?''), eng2\<lparr>script_match := []\<rparr>)"
      by (simp add: t_def eng2_def eng1_def eval_defs equal_weight_script_def)
    note th = heavier_rule_is_tried_first
        [OF a1 a2 disjI1 [OF a3] a4 a5 a6 a7 a8 a9 a10 a11, of 0]
    from th have c1: "reply 0 lit_ext (after_load [equal_weight_script]) ''u'' ''bye'' 0
          = Some (Inr ''what?'', eng2\<lparr>script_match := []\<rparr>)"
      by simp
    from th have c2: "set (sortedrules t) = snd ` set (rules t)"
      by simp
    from a1 a2 a3 a4 a5 a6 pre p0 p1 a8 a9 a10 a11 c1 c2 show ?thesis
      by blast
  qed
  from first second third show ?thesis
    by (intro conjI)
qed

text \<open>
  C2, as the code has it. When the first rule that matches the normalized message has a
  handler that raises an exception derived from \<^verbatim>\<open>Exception\<close>, reply goes on with the
  rules behind it: what reply returns or raises is what the loop over those rules gives. In
  particular reply returns the empty string when none of them matches, and returns
  \<^verbatim>\<open>str\<close> of the value of the next rule when that rule matches and its handler returns.
\<close>

theorem failed_handler_falls_through:
  assumes "set_user eng u = Inr eng1"
    and "build_cache ext eng1 = Inr eng2"
    and "map_of (topics eng2) ''all'' = Some t"
    and "Target_init message None = Inr target"
    and "sortedrules t = pre @ r # post"
    and "\<forall>p\<in>set pre. \<exists>px. regexc p = Some px \<and> re_match ext px (normalized target) = None"
    and "regexc r = Some rx"
    and "re_match ext rx (normalized target) = Some groupdict"
    and "match_dict groupdict [] = Inr matches"
    and "run_handler fuel ext (eng2\<lparr>script_match := matches\<rparr>) (m_body (rule r)) = Some (Inl e, eng3)"
    and "is_Exception e"
  shows "reply fuel ext eng u message depth
           = map_option (\<lambda>(res, eng4). (map_sum id py_str res, eng4))
               (scan fuel ext eng3 post (normalized target))
       \<and> ((\<forall>p\<in>set post. \<exists>px. regexc p = Some px \<and> re_match ext px (normalized target) = None)
            \<longrightarrow> reply fuel ext eng u message depth = Some (Inr [], eng3))
       \<and> (\<forall>q rest qx groupdict' matches' v eng4.
             post = q # rest \<and> regexc q = Some qx
             \<and> re_match ext qx (normalized target) = Some groupdict'
             \<and> match_dict groupdict' [] = Inr matches'
             \<and> run_handler fuel ext (eng3\<lparr>script_match := matches'\<rparr>) (m_body (rule q))
                 = Some (Inr v, eng4)
             \<longrightarrow> reply fuel ext eng u message depth = Some (Inr (py_str v), eng4))"
proof -
  have n: "normalized target
             = join '' '' (map (\<lambda>w. kill_non_alphanumerics (lower w))
                 (re_split_ws re_UNICODE 0 message))"
    using assms(4) by (auto simp: Target_init_None)
  have s1: "scan fuel ext eng2 (sortedrules t) (normalized target)
              = scan fuel ext eng2 (r # post) (normalized target)"
    unfolding assms(5) using assms(6) by (rule scan_skips_non_matching)
  have s2: "scan fuel ext eng2 (r # post) (normalized target)
              = scan fuel ext eng3 post (normalized target)"
    using assms(7-11) by simp
  have main: "reply fuel ext eng u message depth
           = map_option (\<lambda>(res, eng4). (map_sum id py_str res, eng4))
               (scan fuel ext eng3 post (normalized target))"
    using reply_unfold [OF assms(1-3), of fuel message depth] s1 s2 n by simp
  have none: "reply fuel ext eng u message depth = Some (Inr [], eng3)"
    if "\<forall>p\<in>set post. \<exists>px. regexc p = Some px \<and> re_match ext px (normalized target) = None"
    using scan_skips_non_matching [OF that, of fuel eng3 "[]"] main by simp
  have next_rule: "reply fuel ext eng u message depth = Some (Inr (py_str v), eng4)"
    if "post = q # rest" "regexc q = Some qx"
      "re_match ext qx (normalized target) = Some groupdict'"
      "match_dict groupdict' [] = Inr matches'"
      "run_handler fuel ext (eng3\<lparr>script_match := matches'\<rparr>) (m_body (rule q)) = Some (Inr v, eng4)"
    for q rest qx groupdict' matches' v eng4
    using that main by simp
  show ?thesis
    using main none next_rule by blast
qed

text \<open>
  C2, as the claim has it, fails: \<open>failing_script\<close> has a rule of weight 5 for
  \<^verbatim>\<open>hello\<close> whose handler raises and a rule of weight 0 for every message; the reply to
  \<^verbatim>\<open>hello\<close> is the answer of the second rule, not the empty string.
\<close>

theorem failed_handler_counterexample:
  "map_option fst (reply 0 lit_ext (after_load [failing_script]) ''u'' ''hello'' 0)
     = Some (Inr ''fallback'')"
  by (simp add: eval_defs failing_script_def Target_init_None)

text \<open>
  The theorem at two inputs: \<open>failing_script\<close>, where the next rule answers, and
  \<open>lone_failing_script\<close>, where no rule is left.
\<close>

theorem failed_handler_falls_through_witness:
  "(\<exists>eng1 eng2 t target r post q rest.
      set_user (after_load [failing_script]) ''u'' = Inr eng1
      \<and> build_cache lit_ext eng1 = Inr eng2
      \<and> map_of (topics eng2) ''all'' = Some t
      \<and> Target_init ''hello'' None = Inr target
      \<and> sortedrules t = [] @ r # post
      \<and> regexc r = Some ''hello$''
      \<and> re_match lit_ext ''hello$'' (normalized target) = Some []
      \<and> match_dict [] [] = Inr []
      \<and> run_handler 0 lit_ext (eng2\<lparr>script_match := []\<rparr>) (m_body (rule r))
          = Some (Inl (ScriptError ''boom''), eng2\<lparr>script_match := []\<rparr>)
      \<and> is_Exception (ScriptError ''boom'')
      \<and> post = q # rest \<and> regexc q = Some ''.*$''
      \<and> re_match lit_ext ''.*$'' (normalized target) = Some []
      \<and> run_handler 0 lit_ext (eng2\<lparr>script_match := []\<rparr>) (m_body (rule q))
          = Some (Inr (PStr ''fallback''), eng2\<lparr>script_match := []\<rparr>)
      \<and> reply 0 lit_ext (after_load [failing_script]) ''u'' ''hello'' 0
          = Some (Inr ''fallback'', eng2\<lparr>script_match := []\<rparr>))
   \<and> (\<exists>eng1 eng2 t target r.
      set_user (after_load [lone_failing_script]) ''u'' = Inr eng1
      \<and> build_cache lit_ext eng1 = Inr eng2
      \<and> map_of (topics eng2) ''all'' = Some t
      \<and> Target_init ''hello'' None = Inr target
      \<and> sortedrules t = [] @ r # []
      \<and> regexc r = Some ''hello$''
      \<and> re_match lit_ext ''hello$'' (normalized target) = Some []
      \<and> match_dict [] [] = Inr []
      \<and> run_handler 0 lit_ext (eng2\<lparr>script_match := []\<rparr>) (m_body (rule r))
          = Some (Inl (ScriptError ''boom''), eng2\<lparr>script_match := []\<rparr>)
      \<and> is_Exception (ScriptError ''boom'')
      \<and> reply 0 lit_ext (after_load [lone_failing_script]) ''u'' ''hello'' 0
          = Some (Inr [], eng2\<lparr>script_match := []\<rparr>))"
proof -
  have tg: "Target_init ''hello'' None
              = Inr \<lparr> orig_text = ''hello'', orig_words = [''hello''],
                      tokenized_words = [[''hello'']], normalized = ''hello'' \<rparr>"
    by code_simp
  define target where
    "target = \<lparr> orig_text = ''hello'', orig_words = [''hello''],
                 tokenized_words = [[''hello'']], normalized = ''hello'' \<rparr>"
  have tg': "Target_init ''hello'' None = Inr target"
    by (simp add: tg target_def)
  have first: "\<exists>eng1 eng2 t target r post q rest.
      set_user (after_load [failing_script]) ''u'' = Inr eng1
      \<and> build_cache lit_ext eng1 = Inr eng2
      \<and> map_of (topics eng2) ''all'' = Some t
      \<and> Target_init ''hello'' None = Inr target
      \<and> sortedrules t = [] @ r # post
      \<and> regexc r = Some ''hello$''
      \<and> re_match lit_ext ''hello$'' (normalized target) = Some []
      \<and> match_dict [] [] = Inr []
      \<and> run_handler 0 lit_ext (eng2\<lparr>script_match := []\<rparr>) (m_body (rule r))
          = Some (Inl (ScriptError ''boom''), eng2\<lparr>script_match := []\<rparr>)
      \<and> is_Exception (ScriptError ''boom'')
      \<and> post = q # rest \<and> regexc q = Some ''.*$''
      \<and> re_match lit_ext ''.*$'' (normalized target) = Some []
      \<and> run_handler 0 lit_ext (eng2\<lparr>script_match := []\<rparr>) (m_body (rule q))
          = Some (Inr (PStr ''fallback''), eng2\<lparr>script_match := []\<rparr>)
      \<and> reply 0 lit_ext (after_load [failing_script]) ''u'' ''hello'' 0
          = Some (Inr ''fallback'', eng2\<lparr>script_match := []\<rparr>)"
  proof -
    define eng1 where "eng1 = projr (set_user (after_load [failing_script]) ''u'')"
    define eng2 where "eng2 = projr (build_cache lit_ext eng1)"
    define t where "t = the (map_of (topics eng2) ''all'')"
    define r where "r = hd (sortedrules t)"
    define post where "post = tl (sortedrules t)"
    define q where "q = hd post"
    define rest where "rest = tl post"
    have a1: "set_user (after_load [failing_script]) ''u'' = Inr eng1"
      by (simp add: eng1_def eval_defs failing_script_def)
    have a2: "build_cache lit_ext eng1 = Inr eng2"
      by (simp add: eng2_def eng1_def eval_defs failing_script_def)
    have a3: "map_of (topics eng2) ''all'' = Some t"
      by (simp add: t_def eng2_def eng1_def eval_defs failing_script_def)
    have a5: "sortedrules t = [] @ r # post"
      by (simp add: r_def post_def t_def eng2_def eng1_def eval_defs failing_script_def)
    have a7: "regexc r = Some ''hello$''"
      by (simp add: r_def post_def t_def eng2_def eng1_def eval_defs failing_script_def)
    have a8: "re_match lit_ext ''hello$'' (normalized target) = Some []"
      by (simp add: target_def lit_ext_def lit_match_def)
    have a9: "match_dict [] [] = Inr []"
      by simp
    have a10: "run_handler 0 lit_ext (eng2\<lparr>script_match := []\<rparr>) (m_body (rule r))
                 = Some (Inl (ScriptError ''boom''), eng2\<lparr>script_match := []\<rparr>)"
      by (simp add: r_def post_def t_def eng2_def eng1_def eval_defs failing_script_def)
    have a11: "is_Exception (ScriptError ''boom'')"
      by simp
    have b1: "post = q # rest"
      by (simp add: q_def rest_def r_def post_def t_def eng2_def eng1_def eval_defs failing_script_def)
    have b2: "regexc q = Some ''.*$''"
      by (simp add: q_def rest_def r_def post_def t_def eng2_def eng1_def eval_defs failing_script_def)
    have b3: "re_match lit_ext ''.*$'' (normalized target) = Some []"
      by (simp add: target_def lit_ext_def lit_match_def)
    have b4: "run_handler 0 lit_ext (eng2\<lparr>script_match := []\<rparr>) (m_body (rule q))
                 = Some (Inr (PStr ''fallback''), eng2\<lparr>script_match := []\<rparr>)"
      by (simp add: q_def rest_def r_def post_def t_def eng2_def eng1_def eval_defs failing_script_def)
    have "reply 0 lit_ext (after_load [failing_script]) ''u'' ''hello'' 0
            = Some (Inr ''fallback'', eng2\<lparr>script_match := []\<rparr>)"
      using failed_handler_falls_through
        [of "after_load [failing_script]" "''u''" eng1 lit_ext eng2 t "''hello''" target
            "[]" r post "''hello$''" "[]" "[]" 0 "ScriptError ''boom''"
            "eng2\<lparr>script_match := []\<rparr>" 0,
         OF a1 a2 a3 tg' a5 _ a7 a8 a9 a10 a11]
        b1 b2 b3 a9 b4
      by fastforce
    with a1 a2 a3 tg' a5 a7 a8 a9 a10 a11 b1 b2 b3 b4 show ?thesis
      by blast
  qed
  have second: "\<exists>eng1 eng2 t target r.
      set_user (after_load [lone_failing_script]) ''u'' = Inr eng1
      \<and> build_cache lit_ext eng1 = Inr eng2
      \<and> map_of (topics eng2) ''all'' = Some t
      \<and> Target_init ''hello'' None = Inr target
      \<and> sortedrules t = [] @ r # []
      \<and> regexc r = Some ''hello$''
      \<and> re_match lit_ext ''hello$'' (normalized target) = Some []
      \<and> match_dict [] [] = Inr []
      \<and> run_handler 0 lit_ext (eng2\<lparr>script_match := []\<rparr>) (m_body (rule r))
          = Some (Inl (ScriptError ''boom''), eng2\<lparr>script_match := []\<rparr>)
      \<and> is_Exception (ScriptError ''boom'')
      \<and> reply 0 lit_ext (after_load [lone_failing_script]) ''u'' ''hello'' 0
          = Some (Inr [], eng2\<lparr>script_match := []\<rparr>)"
  proof -
    define eng1 where "eng1 = projr (set_user (after_load [lone_failing_script]) ''u'')"
    define eng2 where "eng2 = projr (build_cache lit_ext eng1)"
    define t where "t = the (map_of (topics eng2) ''all'')"
    define r where "r = hd (sortedrules t)"
    have a1: "set_user (after_load [lone_failing_script]) ''u'' = Inr eng1"
      by (simp add: eng1_def eval_defs lone_failing_script_def)
    have a2: "build_cache lit_ext eng1 = Inr eng2"
      by (simp add: eng2_def eng1_def eval_defs lone_failing_script_def)
    have a3: "map_of (topics eng2) ''all'' = Some t"
      by (simp add: t_def eng2_def eng1_def eval_defs lone_failing_script_def)
    have a5: "sortedrules t = [] @ r # []"
      by (simp add: r_def t_def eng2_def eng1_def eval_defs lone_failing_script_def)
    have a7: "regexc r = Some ''hello$''"
      by (simp add: r_def t_def eng2_def eng1_def eval_defs lone_failing_script_def)
    have a8: "re_match lit_ext ''hello$'' (normalized target) = Some []"
      by (simp add: target_def lit_ext_def lit_match_def)
    have a9: "match_dict [] [] = Inr []"
      by simp
    have a10: "run_handler 0 lit_ext (eng2\<lparr>script_match := []\<rparr>) (m_body (rule r))
                 = Some (Inl (ScriptError ''boom''), eng2\<lparr>script_match := []\<rparr>)"
      by (simp add: r_def t_def eng2_def eng1_def eval_defs lone_failing_script_def)
    have a11: "is_Exception (ScriptError ''boom'')"
      by simp
    have "reply 0 lit_ext (after_load [lone_failing_script]) ''u'' ''hello'' 0
            = Some (Inr [], eng2\<lparr>script_match := []\<rparr>)"
      using failed_handler_falls_through
        [of "after_load [lone_failing_script]" "''u''" eng1 lit_ext eng2 t "''hello''" target
            "[]" r "[]" "''hello$''" "[]" "[]" 0 "ScriptError ''boom''"
            "eng2\<lparr>script_match := []\<rparr>" 0,
         OF a1 a2 a3 tg' a5 _ a7 a8 a9 a10 a11]
      by simp
    with a1 a2 a3 tg' a5 a7 a8 a9 a10 a11 show ?thesis
      by blast
  qed
  from first second show ?thesis
    by (rule conjI)
qed

section \<open>Evaluations of the engine\<close>

text \<open>
  C3. A script whose one pattern names an alternate that the topic does not have loads
  without an exception; \<^verbatim>\<open>_get_regexc\<close> catches the failure of the rendering and leaves
  the rule without the attribute \<^verbatim>\<open>regexc\<close>; the next reply reads that attribute, and
  AttributeError leaves reply.
\<close>

theorem unknown_alternate_escapes_reply:
  "load_scripts lit_ext (ChatbotEngine_init False 50) True [unknown_alternate_script]
     = Inr (after_load [unknown_alternate_script])
   \<and> map_option fst (reply 0 lit_ext (after_load [unknown_alternate_script]) ''u'' ''hello'' 0)
       = Some (Inl AttributeError)"
  by (simp add: eval_defs unknown_alternate_script_def Target_init_None)

text \<open>
  C4. Whatever the parser and the arguments are, a constructed Rule has
  \<open>formatted_previous = None\<close>; for the previous pattern \<^verbatim>\<open>how are you\<close> the parser's
  formatting of the tree is not \<^verbatim>\<open>None\<close>. Two methods with the pattern \<^verbatim>\<open>hello\<close> and
  different previous patterns therefore have the same key, and the topic keeps the first
  of them only.
\<close>

theorem formatted_previous_is_never_set:
  "(case Rule_init ext raw_pattern raw_previous w m name of
      Inl e \<Rightarrow> True
    | Inr r \<Rightarrow> formatted_previous r = None)
   \<and> map_sum id (\<lambda>r. (formatted_previous r, map_option (pp_format lit_ext) (previous_tree r)))
        (Rule_init lit_ext ''hello'' ''how are you'' 0
           (pattern_method 1 ''hello'' ''how are you'' 0 (Return (PStr ''fine'')))
           ''_scripts_example.Example.pattern_a'')
       = Inr (None, Some ''how are you'')
   \<and> map (\<lambda>(name, t). (name, map (\<lambda>(key, r). (key, rulename r)) (rules t)))
        (topics (after_load [same_pattern_script]))
       = [(''all'', [((''hello'', None), ''_scripts_example.Example.pattern_a'')])]"
  by (simp add: eval_defs same_pattern_script_def split: sum.splits)

text \<open>
  C5. The previous pattern of the rule names an alternate that the topic does not have
  (rendering it fails), and the rule still answers the message that its pattern matches.
\<close>

theorem unknown_previous_alternate_still_matches:
  "pp_regex lit_ext ''@shades'' [(''a'', [(''colors'', ''(red|green|blue)'')])] = None
   \<and> map_option fst (reply 0 lit_ext (after_load [unknown_previous_script]) ''u'' ''hello'' 0)
       = Some (Inr ''hi there'')"
  by code_simp

lemma looping_built_fixed:
  "set_user (looping_built limit) ''u'' = Inr (looping_built limit)"
  "build_cache lit_ext (looping_built limit) = Inr (looping_built limit)"
  "(looping_built limit)\<lparr>script_match := []\<rparr> = looping_built limit"
  by (simp_all add: looping_built_def eval_defs looping_script_def)

lemma looping_built_rules:
  "\<exists>t r. map_of (topics (looping_built limit)) ''all'' = Some t \<and> sortedrules t = [r]
     \<and> regexc r = Some ''.*$'' \<and> m_body (rule r) = CallReply ''u'' ''again'' 1 echo"
  by (simp add: looping_built_def eval_defs looping_script_def)

lemma looping_built_never_returns:
  "reply fuel lit_ext (looping_built limit) ''u'' message depth = None"
proof (induction fuel arbitrary: message depth)
  case 0
  from looping_built_rules [of limit] obtain t r where
    t: "map_of (topics (looping_built limit)) ''all'' = Some t" and
    r: "sortedrules t = [r]" "regexc r = Some ''.*$''"
       "m_body (rule r) = CallReply ''u'' ''again'' 1 echo"
    by blast
  show ?case
    using reply_unfold [OF looping_built_fixed(1,2) t, of 0 message depth] r
    by (simp add: lit_ext_def lit_match_def looping_built_fixed(3))
next
  case (Suc fuel)
  from looping_built_rules [of limit] obtain t r where
    t: "map_of (topics (looping_built limit)) ''all'' = Some t" and
    r: "sortedrules t = [r]" "regexc r = Some ''.*$''"
       "m_body (rule r) = CallReply ''u'' ''again'' 1 echo"
    by blast
  show ?case
    using reply_unfold [OF looping_built_fixed(1,2) t, of "Suc fuel" message depth] r
      Suc.IH [of "''again''" 1]
    by (simp add: lit_ext_def lit_match_def looping_built_fixed(3))
qed

text \<open>
  C1. The script \<open>looping_script\<close> has one rule, which matches every message and whose
  handler calls reply again. Whatever the depth limit of the engine and the depth handed to
  reply are, no amount of fuel lets reply return: the chain of calls has no end, because
  reply reads neither \<open>depth\<close> nor \<open>depth_limit\<close>. (The interpreter's own recursion
  limit, which is not the configured one, is outside the model.) In the same way a call of
  reply with the depth 5 on an engine whose limit is 1 is answered like any other.
\<close>

theorem recursion_ignores_depth_limit:
  "reply fuel lit_ext ((after_load [looping_script])\<lparr>depth_limit := limit\<rparr>) ''u'' ''hello'' depth
     = None
   \<and> map_option fst
        (reply 0 lit_ext ((after_load [failing_script])\<lparr>depth_limit := 1\<rparr>) ''u'' ''hello'' 5)
       = Some (Inr ''fallback'')"
proof (rule conjI)
  show "map_option fst
        (reply 0 lit_ext ((after_load [failing_script])\<lparr>depth_limit := 1\<rparr>) ''u'' ''hello'' 5)
       = Some (Inr ''fallback'')"
    by (simp add: eval_defs failing_script_def Target_init_None)
next
  have a1: "set_user ((after_load [looping_script])\<lparr>depth_limit := limit\<rparr>) ''u''
             = Inr (projr (set_user ((after_load [looping_script])\<lparr>depth_limit := limit\<rparr>) ''u''))"
    by (simp add: eval_defs looping_script_def)
  have a2: "build_cache lit_ext (projr (set_user ((after_load [looping_script])\<lparr>depth_limit := limit\<rparr>) ''u''))
             = Inr (looping_built limit)"
    by (simp add: looping_built_def eval_defs looping_script_def)
  from looping_built_rules [of limit] obtain t r where
    t: "map_of (topics (looping_built limit)) ''all'' = Some t" and
    r: "sortedrules t = [r]" "regexc r = Some ''.*$''"
       "m_body (rule r) = CallReply ''u'' ''again'' 1 echo"
    by blast
  show "reply fuel lit_ext ((after_load [looping_script])\<lparr>depth_limit := limit\<rparr>)
          ''u'' ''hello'' depth = None"
  proof (cases fuel)
    case 0
    then show ?thesis
      using reply_unfold [OF a1 a2 t, of 0 "''hello''" depth] r
      by (simp add: lit_ext_def lit_match_def looping_built_fixed(3))
  next
    case (Suc n)
    then show ?thesis
      using reply_unfold [OF a1 a2 t, of "Suc n" "''hello''" depth] r
        looping_built_never_returns [of n limit "''again''" 1]
      by (simp add: lit_ext_def lit_match_def looping_built_fixed(3))
  qed
qed

end
